theory Spec2Isabelle
  imports Main
begin

section \<open>JavaScript values\<close>

text \<open>
  A JavaScript string is modelled as a \<open>string\<close>, the list of its characters (the bytes
  of its UTF-8 form). The patterns of the sources look for ASCII characters (\<open>/\<close>,
  \<open>!\<close>, \<open>[\<close>, \<open>]\<close>, \<open>(\<close>, \<open>)\<close>, the double quote) and compare with ASCII
  literals, so they act on the characters of the model as they act on the code units of the
  program. Case mapping and \<open>trim\<close> are modelled on ASCII, which is what the values
  they are applied to (the state of an issue, the status of a file, the output of git)
  consist of. A value that may be \<open>undefined\<close> or \<open>null\<close> is an \<open>option\<close>; a thrown
  exception is the left summand of a sum type.
\<close>

datatype js_error =
    Error string
  | RequestError nat
  | ShellError nat
  | SystemError string

text \<open>Truthiness of a string: the empty string is falsy, \<open>undefined\<close> is falsy.\<close>

definition truthy :: "string option \<Rightarrow> bool" where
  "truthy v = (case v of None \<Rightarrow> False | Some s \<Rightarrow> s \<noteq> [])"

text \<open>\<open>a || b\<close> on strings that may be undefined.\<close>

definition orElse :: "string option \<Rightarrow> string \<Rightarrow> string" where
  "orElse v d = (case v of None \<Rightarrow> d | Some s \<Rightarrow> if s = [] then d else s)"

text \<open>\<open>s.split(sep)\<close> for a separator of one character: the result is never empty.\<close>

fun splitOn :: "char \<Rightarrow> string \<Rightarrow> string list" where
  "splitOn sep [] = [[]]"
| "splitOn sep (c # cs) =
     (if c = sep then [] # splitOn sep cs
      else (case splitOn sep cs of [] \<Rightarrow> [[c]] | p # ps \<Rightarrow> (c # p) # ps))"

text \<open>ASCII case mapping, as the \<open>i\<close> flag of a regular expression without the \<open>u\<close>
  flag and \<open>toUpperCase\<close> behave on ASCII text.\<close>

definition asciiLetters :: "(char \<times> char) list" where
  "asciiLetters = zip ''ABCDEFGHIJKLMNOPQRSTUVWXYZ'' ''abcdefghijklmnopqrstuvwxyz''"

definition toLowerChar :: "char \<Rightarrow> char" where
  "toLowerChar c = (case map_of asciiLetters c of Some l \<Rightarrow> l | None \<Rightarrow> c)"

definition toUpperChar :: "char \<Rightarrow> char" where
  "toUpperChar c = (case map_of (map (\<lambda>(u, l). (l, u)) asciiLetters) c of Some u \<Rightarrow> u | None \<Rightarrow> c)"

definition toLowerCase :: "string \<Rightarrow> string" where
  "toLowerCase s = map toLowerChar s"

definition toUpperCase :: "string \<Rightarrow> string" where
  "toUpperCase s = map toUpperChar s"

text \<open>\<open>s.trim()\<close>: white space and line terminators are removed at both ends.\<close>

definition isWhiteSpace :: "char \<Rightarrow> bool" where
  "isWhiteSpace c = (c \<in> set [CHR 0x09, CHR 0x0A, CHR 0x0B, CHR 0x0C, CHR 0x0D, CHR '' ''])"

definition trim :: "string \<Rightarrow> string" where
  "trim s = rev (dropWhile isWhiteSpace (rev (dropWhile isWhiteSpace s)))"

text \<open>The decimal rendering of a non-negative integer, as a template literal prints it.\<close>

definition digitChar :: "nat \<Rightarrow> char" where
  "digitChar d = ''0123456789'' ! d"

fun showNat :: "nat \<Rightarrow> string" where
  "showNat n = (if n < 10 then [digitChar n] else showNat (n div 10) @ [digitChar (n mod 10)])"

declare showNat.simps [simp del]

text \<open>The rest of a string after a literal prefix, when it starts with that prefix.\<close>

fun stripPrefix :: "string \<Rightarrow> string \<Rightarrow> string option" where
  "stripPrefix [] s = Some s"
| "stripPrefix (p # ps) [] = None"
| "stripPrefix (p # ps) (c # cs) = (if p = c then stripPrefix ps cs else None)"

text \<open>All suffixes of a string, the longest (leftmost start) first.\<close>

fun tails :: "string \<Rightarrow> string list" where
  "tails [] = [[]]"
| "tails (c # cs) = (c # cs) # tails cs"


section \<open>Configuration (src/github/api/config.ts)\<close>

record process_env =
  GITEA_API_URL :: "string option"
  GITEA_SERVER_URL :: "string option"
  GITHUB_SERVER_URL :: "string option"
  GITHUB_RUN_NUMBER :: "string option"

definition SERVER_URL :: "process_env \<Rightarrow> string" where
  "SERVER_URL env =
     orElse (GITEA_SERVER_URL env) (orElse (GITHUB_SERVER_URL env) ''https://github.com'')"

definition getServerUrl :: "process_env \<Rightarrow> string" where
  "getServerUrl env = SERVER_URL env"

definition isGiteaInstance :: "process_env \<Rightarrow> bool" where
  "isGiteaInstance env = truthy (GITEA_API_URL env)"


section \<open>Image downloader (downloadCommentImages and getImageExtension)\<close>

subsection \<open>The two patterns\<close>

text \<open>
  \<open>createImageRegex\<close> escapes every metacharacter of the server URL, so the URL is
  matched literally. The pattern is
  \<open>!\[[^\]]*\]\((SERVER/attachments/[^)]+)\)\<close> on Gitea and
  \<open>!\[[^\]]*\]\((SERVER/user-attachments/assets/[^)]+)\)\<close> otherwise.
\<close>

definition attachmentPrefix :: "process_env \<Rightarrow> string" where
  "attachmentPrefix env =
     getServerUrl env @
       (if isGiteaInstance env then ''/attachments/'' else ''/user-attachments/assets/'')"

text \<open>
  A match of the image pattern that starts at the head of \<open>s\<close>: group 1 and the length
  of the whole match. Both character classes exclude the character that must follow them,
  so the greedy run is the only candidate and no backtracking can find another match.
\<close>

definition matchImageAt :: "process_env \<Rightarrow> string \<Rightarrow> (string \<times> nat) option" where
  "matchImageAt env s =
     (case stripPrefix ''!['' s of
        None \<Rightarrow> None
      | Some r1 \<Rightarrow>
          (case stripPrefix '']('' (dropWhile (\<lambda>c. c \<noteq> CHR '']'') r1) of
             None \<Rightarrow> None
           | Some r2 \<Rightarrow>
               (case stripPrefix (attachmentPrefix env) r2 of
                  None \<Rightarrow> None
                | Some r3 \<Rightarrow>
                    (let path = takeWhile (\<lambda>c. c \<noteq> CHR '')'') r3;
                         r4 = dropWhile (\<lambda>c. c \<noteq> CHR '')'') r3
                     in if path \<noteq> [] \<and> r4 \<noteq> []
                        then Some (attachmentPrefix env @ path, length s - length r4 + 1)
                        else None))))"

text \<open>
  \<open>[...body.matchAll(IMAGE_REGEX)].map(m => m[1])\<close>: the scan goes from left to right;
  after a match it resumes behind the match (\<open>skip\<close> counts the characters of the last
  match that are still to be passed), otherwise at the next character.
\<close>

fun scanImages :: "process_env \<Rightarrow> nat \<Rightarrow> string \<Rightarrow> string list" where
  "scanImages env skip [] = []"
| "scanImages env skip (c # cs) =
     (if 0 < skip then scanImages env (skip - 1) cs
      else (case matchImageAt env (c # cs) of
              None \<Rightarrow> scanImages env 0 cs
            | Some (url, len) \<Rightarrow> url # scanImages env (len - 1) cs))"

definition imageUrls :: "process_env \<Rightarrow> string \<Rightarrow> string list" where
  "imageUrls env body = scanImages env 0 body"

text \<open>
  The signed-URL pattern
  \<open>https:\/\/private-user-images\.githubusercontent\.com\/[^"]+\?jwt=[^"]+\<close>.
  After the literal prefix, both classes range over the characters up to the next double
  quote. The last class is greedy and reaches the end of that run, so every match that
  starts here is the prefix followed by the whole run; there is one exactly when the run
  holds \<open>?jwt=\<close> with a character before it and a character after it.
\<close>

definition signedUrlPrefix :: string where
  "signedUrlPrefix = ''https://private-user-images.githubusercontent.com/''"

definition jwtInside :: "string \<Rightarrow> bool" where
  "jwtInside run =
     list_ex (\<lambda>t. case stripPrefix ''?jwt='' t of Some (c # cs) \<Rightarrow> True | _ \<Rightarrow> False)
       (tails (tl run))"

definition matchSignedAt :: "string \<Rightarrow> string option" where
  "matchSignedAt s =
     (case stripPrefix signedUrlPrefix s of
        None \<Rightarrow> None
      | Some r \<Rightarrow>
          (let run = takeWhile (\<lambda>c. c \<noteq> CHR 0x22) r
           in if jwtInside run then Some (signedUrlPrefix @ run) else None))"

fun scanSigned :: "nat \<Rightarrow> string \<Rightarrow> string list" where
  "scanSigned skip [] = []"
| "scanSigned skip (c # cs) =
     (if 0 < skip then scanSigned (skip - 1) cs
      else (case matchSignedAt (c # cs) of
              None \<Rightarrow> scanSigned 0 cs
            | Some url \<Rightarrow> url # scanSigned (length url - 1) cs))"

text \<open>\<open>bodyHtml.match(signedUrlRegex) || []\<close>\<close>

definition signedUrlsIn :: "string \<Rightarrow> string list" where
  "signedUrlsIn bodyHtml = scanSigned 0 bodyHtml"

subsection \<open>getImageExtension\<close>

definition imageExtensions :: "string list" where
  "imageExtensions = [''.png'', ''.jpg'', ''.jpeg'', ''.gif'', ''.webp'', ''.svg'']"

text \<open>
  \<open>filename.match(/\.(png|jpg|jpeg|gif|webp|svg)$/i)\<close>: the leftmost position from
  which the rest of the file name is a dot and one of the extensions, in any letter case;
  \<open>match[0]\<close> is that rest as the file name spells it.
\<close>

definition matchExtension :: "string \<Rightarrow> string option" where
  "matchExtension filename =
     find (\<lambda>t. toLowerCase t \<in> set imageExtensions) (tails filename)"

definition getImageExtension :: "string \<Rightarrow> js_error + string" where
  "getImageExtension url =
     (let urlParts = splitOn CHR ''/'' url;
          filename = last urlParts
      in if filename = [] then Inl (Error ''Invalid URL: No filename found'')
         else Inr (case matchExtension filename of Some m \<Rightarrow> m | None \<Rightarrow> ''.png''))"

subsection \<open>Comments and the platform\<close>

text \<open>
  \<open>CommentWithImages\<close>: the union of the five comment shapes. The fields are, in this
  order, \<open>id\<close> and \<open>body\<close> (issue comment, review comment), \<open>id\<close>, \<open>pullNumber\<close> and
  \<open>body\<close> (review body), \<open>issueNumber\<close> and \<open>body\<close> (issue body), \<open>pullNumber\<close> and
  \<open>body\<close> (pull-request body).
\<close>

datatype CommentWithImages =
    IssueComment string string
  | ReviewComment string string
  | ReviewBody string string string
  | IssueBody string string
  | PullRequestBody string string

fun commentBody :: "CommentWithImages \<Rightarrow> string" where
  "commentBody (IssueComment cid b) = b"
| "commentBody (ReviewComment cid b) = b"
| "commentBody (ReviewBody cid pullNumber b) = b"
| "commentBody (IssueBody issueNumber b) = b"
| "commentBody (PullRequestBody pullNumber b) = b"

text \<open>
  The requests that ask for the rendered HTML (\<open>mediaType: full+json\<close>). Every request
  of a run names the same owner and repository, which the model leaves out; a number is
  passed as the program holds it (a string, read by \<open>parseInt\<close> at the call).
\<close>

datatype html_request =
    IssuesGetComment string
  | PullsGetReviewComment string
  | PullsGetReview string string
  | IssuesGet string
  | PullsGet string

record http_response =
  resp_ok :: bool
  resp_status :: nat
  resp_bytes :: "nat list"

text \<open>The plain REST responses, with the fields that \<open>fetchGitHubData\<close> reads.\<close>

record pr_data =
  pr_title :: string
  pr_body :: "string option"
  pr_user_login :: "string option"
  pr_base_ref :: string
  pr_head_ref :: string
  pr_head_sha :: string
  pr_created_at :: string
  pr_additions :: "nat option"
  pr_deletions :: "nat option"
  pr_state :: string

record issue_data =
  issue_title :: string
  issue_body :: "string option"
  issue_user_login :: "string option"
  issue_created_at :: string
  issue_state :: string

record comment_data =
  comment_id :: nat
  comment_body :: "string option"
  comment_user_login :: "string option"
  comment_created_at :: string

record file_data =
  file_filename :: string
  file_additions :: "nat option"
  file_deletions :: "nat option"
  file_status :: "string option"

text \<open>
  Everything outside the program: the REST API behind \<open>octokits.rest\<close>, \<open>fetch\<close>, the
  file system, the clock and \<open>git hash-object\<close>. A call answers with a value or throws.
  \<open>Date_now n\<close> is what the clock shows at the \<open>n\<close>-th reading of a run.
\<close>

record world =
  pulls_get :: "string \<Rightarrow> js_error + pr_data"
  issues_get :: "string \<Rightarrow> js_error + issue_data"
  issues_listComments :: "string \<Rightarrow> js_error + comment_data list"
  pulls_listFiles :: "string \<Rightarrow> js_error + file_data list"
  users_getByUsername :: "string \<Rightarrow> js_error + string option"
  body_html :: "html_request \<Rightarrow> js_error + string option"
  fetch :: "string \<Rightarrow> js_error + http_response"
  fs_mkdir :: "string \<Rightarrow> js_error + unit"
  fs_writeFile :: "string \<Rightarrow> nat list \<Rightarrow> js_error + unit"
  Date_now :: "nat \<Rightarrow> nat"
  git_hash_object :: "string \<Rightarrow> js_error + string"

datatype rest_request =
    ReqPullsGet string
  | ReqIssuesGet string
  | ReqIssuesListComments string
  | ReqPullsListFiles string
  | ReqUsersGetByUsername string

text \<open>
  What a run does to the outside, in the order it does it. \<open>HtmlCall c\<close> is the request
  for the rendered HTML of comment \<open>c\<close>; \<open>Download original signed\<close> is the line
  \<open>Downloading original...\<close> followed by \<open>fetch(signed)\<close>; \<open>MapSet\<close> records
  \<open>urlToPathMap.set\<close>.
\<close>

datatype event =
    RestCall rest_request
  | HashObject string
  | Mkdir string
  | HtmlCall CommentWithImages
  | DateNow
  | Download string string
  | WriteFile string "nat list"
  | MapSet string string

subsection \<open>The map from URL to local path\<close>

text \<open>A JavaScript \<open>Map\<close>, in insertion order: \<open>set\<close> on a present key replaces the
  value in place, on a new key it appends the entry.\<close>

type_synonym url_map = "(string \<times> string) list"

definition map_has :: "url_map \<Rightarrow> string \<Rightarrow> bool" where
  "map_has m k = (k \<in> set (map fst m))"

fun map_set :: "url_map \<Rightarrow> string \<Rightarrow> string \<Rightarrow> url_map" where
  "map_set [] k v = [(k, v)]"
| "map_set ((k', v') # m) k v = (if k' = k then (k, v) # m else (k', v') # map_set m k v)"

subsection \<open>downloadCommentImages\<close>

record dl_state =
  urlToPathMap :: url_map
  clockReads :: nat
  trace :: "event list"

definition emit :: "event \<Rightarrow> dl_state \<Rightarrow> dl_state" where
  "emit e st = st\<lparr>trace := trace st @ [e]\<rparr>"

definition downloadsDir :: string where
  "downloadsDir = ''/tmp/github-images''"

text \<open>The first loop: the comments whose body has at least one match, with the matches.\<close>

fun collectImages ::
  "process_env \<Rightarrow> CommentWithImages list \<Rightarrow> (CommentWithImages \<times> string list) list" where
  "collectImages env [] = []"
| "collectImages env (comment # comments) =
     (let urls = imageUrls env (commentBody comment)
      in if 0 < length urls then (comment, urls) # collectImages env comments
         else collectImages env comments)"

fun htmlRequestOf :: "CommentWithImages \<Rightarrow> html_request" where
  "htmlRequestOf (IssueComment cid b) = IssuesGetComment cid"
| "htmlRequestOf (ReviewComment cid b) = PullsGetReviewComment cid"
| "htmlRequestOf (ReviewBody cid pullNumber b) = PullsGetReview pullNumber cid"
| "htmlRequestOf (IssueBody issueNumber b) = IssuesGet issueNumber"
| "htmlRequestOf (PullRequestBody pullNumber b) = PullsGet pullNumber"

text \<open>The \<open>switch\<close>: review comments and review bodies catch a failed request and go on
  with \<open>undefined\<close>; for the other three shapes the exception leaves the \<open>switch\<close>.\<close>

fun getBodyHtml :: "world \<Rightarrow> CommentWithImages \<Rightarrow> js_error + string option" where
  "getBodyHtml w (IssueComment cid b) = body_html w (IssuesGetComment cid)"
| "getBodyHtml w (ReviewComment cid b) =
     (case body_html w (PullsGetReviewComment cid) of Inl e \<Rightarrow> Inr None | Inr h \<Rightarrow> Inr h)"
| "getBodyHtml w (ReviewBody cid pullNumber b) =
     (case body_html w (PullsGetReview pullNumber cid) of Inl e \<Rightarrow> Inr None | Inr h \<Rightarrow> Inr h)"
| "getBodyHtml w (IssueBody issueNumber b) = body_html w (IssuesGet issueNumber)"
| "getBodyHtml w (PullRequestBody pullNumber b) = body_html w (PullsGet pullNumber)"

text \<open>The inner \<open>try\<close> of the download loop: any failure is logged and leaves the map
  as it was. The answer of \<open>fetch\<close> carries the bytes that \<open>arrayBuffer()\<close> reads; a
  failure to read them is a failure of \<open>fetch\<close>.\<close>

definition tryDownload :: "world \<Rightarrow> string \<Rightarrow> string \<Rightarrow> string \<Rightarrow> dl_state \<Rightarrow> dl_state" where
  "tryDownload w signedUrl originalUrl localPath st =
     (let st1 = emit (Download originalUrl signedUrl) st
      in case fetch w signedUrl of
           Inl e \<Rightarrow> st1
         | Inr imageResponse \<Rightarrow>
             if \<not> resp_ok imageResponse then st1
             else
               (let buffer = resp_bytes imageResponse;
                    st2 = emit (WriteFile localPath buffer) st1
                in case fs_writeFile w localPath buffer of
                     Inl e \<Rightarrow> st2
                   | Inr u \<Rightarrow>
                       emit (MapSet originalUrl localPath)
                         (st2\<lparr>urlToPathMap := map_set (urlToPathMap st2) originalUrl localPath\<rparr>)))"

text \<open>The file name \<open>image-${Date.now()}-${i}${fileExtension}\<close> and
  \<open>path.join(downloadsDir, filename)\<close>, which joins with one slash (the file name has
  no slash: the extension is cut from the last segment of the URL).\<close>

definition imageFilename :: "nat \<Rightarrow> nat \<Rightarrow> string \<Rightarrow> string" where
  "imageFilename now i fileExtension =
     ''image-'' @ showNat now @ ''-'' @ showNat i @ fileExtension"

definition pathJoin :: "string \<Rightarrow> string \<Rightarrow> string" where
  "pathJoin dir filename = dir @ ''/'' @ filename"

text \<open>
  The loop \<open>for (let i = 0; i < Math.min(signedUrls.length, urls.length); i++)\<close> over
  the pairs \<open>(signedUrls[i], urls[i])\<close>, that is over \<open>zip signedUrls urls\<close>, with the
  index \<open>i\<close>. An exception of \<open>getImageExtension\<close> is outside the inner \<open>try\<close>: it ends
  the loop, and the result carries it to the \<open>catch\<close> of the comment.
\<close>

fun downloadLoop ::
  "world \<Rightarrow> nat \<Rightarrow> (string \<times> string) list \<Rightarrow> dl_state \<Rightarrow> js_error option \<times> dl_state" where
  "downloadLoop w i [] st = (None, st)"
| "downloadLoop w i ((signedUrl, originalUrl) # pairs) st =
     (if signedUrl = [] \<or> originalUrl = [] then downloadLoop w (Suc i) pairs st
      else if map_has (urlToPathMap st) originalUrl then downloadLoop w (Suc i) pairs st
      else
        (case getImageExtension originalUrl of
           Inl e \<Rightarrow> (Some e, st)
         | Inr fileExtension \<Rightarrow>
             (let now = Date_now w (clockReads st);
                  st1 = emit DateNow (st\<lparr>clockReads := Suc (clockReads st)\<rparr>);
                  filename = imageFilename now i fileExtension;
                  localPath = pathJoin downloadsDir filename
              in downloadLoop w (Suc i) pairs
                   (tryDownload w signedUrl originalUrl localPath st1))))"

text \<open>The body of the second loop, with its \<open>try\<close>/\<open>catch\<close>: whatever is thrown is
  logged, and the next comment is processed.\<close>

definition processComment ::
  "world \<Rightarrow> CommentWithImages \<times> string list \<Rightarrow> dl_state \<Rightarrow> dl_state" where
  "processComment w cu st =
     (let comment = fst cu; urls = snd cu;
          st1 = emit (HtmlCall comment) st
      in case getBodyHtml w comment of
           Inl e \<Rightarrow> st1
         | Inr None \<Rightarrow> st1
         | Inr (Some bodyHtml) \<Rightarrow>
             if bodyHtml = [] then st1
             else snd (downloadLoop w 0 (zip (signedUrlsIn bodyHtml) urls) st1))"

fun processComments ::
  "world \<Rightarrow> (CommentWithImages \<times> string list) list \<Rightarrow> dl_state \<Rightarrow> dl_state" where
  "processComments w [] st = st"
| "processComments w (cu # rest) st = processComments w rest (processComment w cu st)"

text \<open>The function: the map, or the exception of \<open>fs.mkdir\<close> (the only call outside a
  \<open>try\<close>), and the trace of the run.\<close>

definition downloadCommentImages ::
  "process_env \<Rightarrow> world \<Rightarrow> CommentWithImages list \<Rightarrow> (js_error + url_map) \<times> event list" where
  "downloadCommentImages env w comments =
     (case fs_mkdir w downloadsDir of
        Inl e \<Rightarrow> (Inl e, [Mkdir downloadsDir])
      | Inr u \<Rightarrow>
          (let st0 = \<lparr>urlToPathMap = [], clockReads = 0, trace = [Mkdir downloadsDir]\<rparr>;
               commentsWithImages = collectImages env comments;
               st = processComments w commentsWithImages st0
           in (Inr (urlToPathMap st), trace st)))"


section \<open>Context fetcher (fetchGitHubData)\<close>

text \<open>
  The normalized entity. The fields that the program sets to a constant (\<open>commits\<close>,
  \<open>files\<close>, \<open>comments\<close> and \<open>reviews\<close>, all empty) are left out.
\<close>

record GitHubPullRequest =
  prq_title :: string
  prq_body :: string
  prq_author :: string
  prq_baseRefName :: string
  prq_headRefName :: string
  prq_headRefOid :: string
  prq_createdAt :: string
  prq_additions :: nat
  prq_deletions :: nat
  prq_state :: string

record GitHubIssue =
  iss_title :: string
  iss_body :: string
  iss_author :: string
  iss_createdAt :: string
  iss_state :: string

datatype context_data = PullRequest GitHubPullRequest | Issue GitHubIssue

fun contextBody :: "context_data \<Rightarrow> string" where
  "contextBody (PullRequest d) = prq_body d"
| "contextBody (Issue d) = iss_body d"

record GitHubComment =
  cmt_id :: string
  cmt_databaseId :: string
  cmt_body :: string
  cmt_author :: string
  cmt_createdAt :: string

record GitHubFile =
  gf_path :: string
  gf_additions :: nat
  gf_deletions :: nat
  gf_changeType :: string

record GitHubFileWithSHA = GitHubFile +
  gf_sha :: string

record GitHubReviewComment =
  rvc_databaseId :: string
  rvc_body :: string

record GitHubReview =
  rv_databaseId :: string
  rv_body :: string
  rv_comments :: "GitHubReviewComment list"

text \<open>\<open>triggerDisplayName\<close> is \<open>None\<close> where the program has \<open>null\<close> or \<open>undefined\<close>.\<close>

record FetchDataResult =
  contextData :: context_data
  comments :: "GitHubComment list"
  changedFiles :: "GitHubFile list"
  changedFilesWithSHA :: "GitHubFileWithSHA list"
  reviewData :: "GitHubReview list option"
  imageUrlMap :: url_map
  triggerDisplayName :: "string option"

definition orZero :: "nat option \<Rightarrow> nat" where
  "orZero v = (case v of None \<Rightarrow> 0 | Some n \<Rightarrow> n)"

definition toPullRequest :: "pr_data \<Rightarrow> GitHubPullRequest" where
  "toPullRequest d =
     \<lparr>prq_title = pr_title d,
      prq_body = orElse (pr_body d) [],
      prq_author = orElse (pr_user_login d) [],
      prq_baseRefName = pr_base_ref d,
      prq_headRefName = pr_head_ref d,
      prq_headRefOid = pr_head_sha d,
      prq_createdAt = pr_created_at d,
      prq_additions = orZero (pr_additions d),
      prq_deletions = orZero (pr_deletions d),
      prq_state = toUpperCase (pr_state d)\<rparr>"

definition toIssue :: "issue_data \<Rightarrow> GitHubIssue" where
  "toIssue d =
     \<lparr>iss_title = issue_title d,
      iss_body = orElse (issue_body d) [],
      iss_author = orElse (issue_user_login d) [],
      iss_createdAt = issue_created_at d,
      iss_state = toUpperCase (issue_state d)\<rparr>"

definition toComment :: "comment_data \<Rightarrow> GitHubComment" where
  "toComment c =
     \<lparr>cmt_id = showNat (comment_id c),
      cmt_databaseId = showNat (comment_id c),
      cmt_body = orElse (comment_body c) [],
      cmt_author = orElse (comment_user_login c) [],
      cmt_createdAt = comment_created_at c\<rparr>"

definition toFile :: "file_data \<Rightarrow> GitHubFile" where
  "toFile f =
     \<lparr>gf_path = file_filename f,
      gf_additions = orZero (file_additions f),
      gf_deletions = orZero (file_deletions f),
      gf_changeType = orElse (map_option toUpperCase (file_status f)) ''MODIFIED''\<rparr>"

text \<open>The two inner \<open>try\<close> blocks: a failed request is logged and gives the empty list.\<close>

definition fetchComments :: "world \<Rightarrow> string \<Rightarrow> GitHubComment list" where
  "fetchComments w prNumber =
     (case issues_listComments w prNumber of
        Inl e \<Rightarrow> []
      | Inr commentsResponse \<Rightarrow> map toComment commentsResponse)"

definition fetchFiles :: "world \<Rightarrow> string \<Rightarrow> GitHubFile list" where
  "fetchFiles w prNumber =
     (case pulls_listFiles w prNumber of
        Inl e \<Rightarrow> []
      | Inr filesResponse \<Rightarrow> map toFile filesResponse)"

text \<open>
  The outer \<open>try\<close> block: the entity, the comments, the changed files and the review data,
  or the exception of the entity request, with the requests made.
\<close>

definition fetchEntity ::
  "world \<Rightarrow> string \<Rightarrow> bool \<Rightarrow>
   (js_error + context_data \<times> GitHubComment list \<times> GitHubFile list \<times> GitHubReview list option)
   \<times> event list" where
  "fetchEntity w prNumber isPR =
     (if isPR then
        (case pulls_get w prNumber of
           Inl e \<Rightarrow> (Inl e, [RestCall (ReqPullsGet prNumber)])
         | Inr prResponse \<Rightarrow>
             (Inr (PullRequest (toPullRequest prResponse), fetchComments w prNumber,
                   fetchFiles w prNumber, Some []),
              [RestCall (ReqPullsGet prNumber), RestCall (ReqIssuesListComments prNumber),
               RestCall (ReqPullsListFiles prNumber)]))
      else
        (case issues_get w prNumber of
           Inl e \<Rightarrow> (Inl e, [RestCall (ReqIssuesGet prNumber)])
         | Inr issueResponse \<Rightarrow>
             (Inr (Issue (toIssue issueResponse), fetchComments w prNumber, [], None),
              [RestCall (ReqIssuesGet prNumber), RestCall (ReqIssuesListComments prNumber)])))"

text \<open>The hash of one changed file: \<open>git hash-object\<close> is not run for a deleted file,
  and its failure gives \<open>unknown\<close>. \<open>withSHA file s\<close> is \<open>{ ...file, sha: s }\<close>.\<close>

definition withSHA :: "GitHubFile \<Rightarrow> string \<Rightarrow> GitHubFileWithSHA" where
  "withSHA file s =
     \<lparr>gf_path = gf_path file, gf_additions = gf_additions file,
      gf_deletions = gf_deletions file, gf_changeType = gf_changeType file, gf_sha = s\<rparr>"

definition fileWithSHA :: "world \<Rightarrow> GitHubFile \<Rightarrow> GitHubFileWithSHA" where
  "fileWithSHA w file =
     (if gf_changeType file = ''DELETED'' then withSHA file ''deleted''
      else (case git_hash_object w (gf_path file) of
              Inl e \<Rightarrow> withSHA file ''unknown''
            | Inr out \<Rightarrow> withSHA file (trim out)))"

definition hashEvents :: "GitHubFile list \<Rightarrow> event list" where
  "hashEvents files =
     map (\<lambda>file. HashObject (gf_path file)) (filter (\<lambda>file. gf_changeType file \<noteq> ''DELETED'') files)"

text \<open>The comments handed to the image downloader.\<close>

definition issueCommentsOf :: "GitHubComment list \<Rightarrow> CommentWithImages list" where
  "issueCommentsOf cs =
     map (\<lambda>c. IssueComment (cmt_databaseId c) (cmt_body c)) (filter (\<lambda>c. cmt_body c \<noteq> []) cs)"

definition reviewBodiesOf :: "string \<Rightarrow> GitHubReview list option \<Rightarrow> CommentWithImages list" where
  "reviewBodiesOf prNumber rd =
     (case rd of
        None \<Rightarrow> []
      | Some nodes \<Rightarrow>
          map (\<lambda>r. ReviewBody (rv_databaseId r) prNumber (rv_body r))
            (filter (\<lambda>r. rv_body r \<noteq> []) nodes))"

definition reviewCommentsOf :: "GitHubReview list option \<Rightarrow> CommentWithImages list" where
  "reviewCommentsOf rd =
     (case rd of
        None \<Rightarrow> []
      | Some nodes \<Rightarrow>
          map (\<lambda>c. ReviewComment (rvc_databaseId c) (rvc_body c))
            (filter (\<lambda>c. rvc_body c \<noteq> []) (concat (map rv_comments nodes))))"

definition mainBodyOf :: "bool \<Rightarrow> string \<Rightarrow> context_data \<Rightarrow> CommentWithImages list" where
  "mainBodyOf isPR prNumber cd =
     (if contextBody cd \<noteq> []
      then [if isPR then PullRequestBody prNumber (contextBody cd)
            else IssueBody prNumber (contextBody cd)]
      else [])"

definition allCommentsOf ::
  "bool \<Rightarrow> string \<Rightarrow> context_data \<Rightarrow> GitHubComment list \<Rightarrow> GitHubReview list option
   \<Rightarrow> CommentWithImages list" where
  "allCommentsOf isPR prNumber cd cs rd =
     mainBodyOf isPR prNumber cd @ issueCommentsOf cs @ reviewBodiesOf prNumber rd
       @ reviewCommentsOf rd"

definition fetchUserDisplayName :: "world \<Rightarrow> string \<Rightarrow> string option" where
  "fetchUserDisplayName w login =
     (case users_getByUsername w login of Inl e \<Rightarrow> None | Inr name \<Rightarrow> name)"

text \<open>\<open>if (triggerUsername) triggerDisplayName = await fetchUserDisplayName(...)\<close>\<close>

definition triggerName :: "world \<Rightarrow> string option \<Rightarrow> string option \<times> event list" where
  "triggerName w triggerUsername =
     (case triggerUsername of
        None \<Rightarrow> (None, [])
      | Some login \<Rightarrow>
          if login = [] then (None, [])
          else (fetchUserDisplayName w login, [RestCall (ReqUsersGetByUsername login)]))"

definition invalidRepository :: js_error where
  "invalidRepository =
     Error (''Invalid repository format. Expected '' @ [CHR 0x27] @ ''owner/repo''
            @ [CHR 0x27] @ ''.'')"

definition fetchFailed :: "bool \<Rightarrow> js_error" where
  "fetchFailed isPR = Error (''Failed to fetch '' @ (if isPR then ''PR'' else ''issue'') @ '' data'')"

text \<open>\<open>const [owner, repo] = repository.split("/")\<close> and the test \<open>!owner || !repo\<close>.\<close>

definition validRepository :: "string \<Rightarrow> bool" where
  "validRepository repository =
     (case splitOn CHR ''/'' repository of
        owner # repo # others \<Rightarrow> owner \<noteq> [] \<and> repo \<noteq> []
      | _ \<Rightarrow> False)"

definition fetchGitHubData ::
  "process_env \<Rightarrow> world \<Rightarrow> string \<Rightarrow> string \<Rightarrow> bool \<Rightarrow> string option
   \<Rightarrow> (js_error + FetchDataResult) \<times> event list" where
  "fetchGitHubData env w repository prNumber isPR triggerUsername =
     (if \<not> validRepository repository then (Inl invalidRepository, [])
      else
        (case fetchEntity w prNumber isPR of
           (Inl e, tr1) \<Rightarrow> (Inl (fetchFailed isPR), tr1)
         | (Inr (cd, cs, files, rd), tr1) \<Rightarrow>
             (let withSHA = (if isPR \<and> 0 < length files then map (fileWithSHA w) files else []);
                  tr2 = (if isPR \<and> 0 < length files then hashEvents files else []);
                  allComments = allCommentsOf isPR prNumber cd cs rd
              in case downloadCommentImages env w allComments of
                   (Inl e, tr3) \<Rightarrow> (Inl e, tr1 @ tr2 @ tr3)
                 | (Inr images, tr3) \<Rightarrow>
                     (Inr \<lparr>contextData = cd, comments = cs, changedFiles = files,
                           changedFilesWithSHA = withSHA, reviewData = rd,
                           imageUrlMap = images,
                           triggerDisplayName = fst (triggerName w triggerUsername)\<rparr>,
                      tr1 @ tr2 @ tr3 @ snd (triggerName w triggerUsername)))))"


section \<open>Branch reconciliation (checkAndCommitOrDeleteBranch)\<close>

text \<open>
  The outside of the reconciler. \<open>repos_getBranch n b\<close> answers the \<open>n\<close>-th
  \<open>getBranch\<close> request of a run, made for branch \<open>b\<close>, with \<open>data.commit.sha\<close>; the
  shell commands answer with their output or throw. The answer to the request that deletes
  the branch is only logged, so the model records the request and not its answer.
\<close>

record branch_world =
  repos_getBranch :: "nat \<Rightarrow> string \<Rightarrow> js_error + string"
  git_status_porcelain :: "js_error + string"
  git_add_all :: "js_error + unit"
  git_commit :: "string \<Rightarrow> js_error + unit"
  git_push :: "string \<Rightarrow> js_error + unit"

datatype branch_event =
    GetBranch string
  | GitStatus
  | GitAdd
  | GitCommit string
  | GitPush string
  | GiteaDeleteBranch string
  | DeleteRef string

record branch_result =
  shouldDeleteBranch :: bool
  branchLink :: string

definition viewBranchLink :: "process_env \<Rightarrow> string \<Rightarrow> string \<Rightarrow> string \<Rightarrow> string" where
  "viewBranchLink env owner repo claudeBranch =
     [CHR 0x0A] @ ''[View branch]('' @ getServerUrl env @ ''/'' @ owner @ ''/'' @ repo
       @ ''/tree/'' @ claudeBranch @ '')''"

definition commitMessage :: "process_env \<Rightarrow> string" where
  "commitMessage env =
     ''Auto-commit: Save uncommitted changes from Claude'' @ [CHR 0x0A, CHR 0x0A]
       @ ''Run ID: '' @ orElse (GITHUB_RUN_NUMBER env) ''unknown''"

text \<open>
  The \<open>try\<close> around \<open>git status\<close>: with uncommitted changes they are added, committed
  and pushed, and the branch is linked; with a clean tree the branch is marked for
  deletion; any failing command gives the link.
\<close>

definition commitUncommitted ::
  "process_env \<Rightarrow> branch_world \<Rightarrow> string \<Rightarrow> string \<Rightarrow> string
   \<Rightarrow> branch_result \<times> branch_event list" where
  "commitUncommitted env w owner repo claudeBranch =
     (let linked = \<lparr>shouldDeleteBranch = False,
                     branchLink = viewBranchLink env owner repo claudeBranch\<rparr>
      in case git_status_porcelain w of
           Inl e \<Rightarrow> (linked, [GitStatus])
         | Inr out \<Rightarrow>
             if 0 < length (trim out) then
               (case git_add_all w of
                  Inl e \<Rightarrow> (linked, [GitStatus, GitAdd])
                | Inr u \<Rightarrow>
                    (case git_commit w (commitMessage env) of
                       Inl e \<Rightarrow> (linked, [GitStatus, GitAdd, GitCommit (commitMessage env)])
                     | Inr u \<Rightarrow>
                         (case git_push w claudeBranch of
                            Inl e \<Rightarrow>
                              (linked, [GitStatus, GitAdd, GitCommit (commitMessage env),
                                        GitPush claudeBranch])
                          | Inr u \<Rightarrow>
                              (linked, [GitStatus, GitAdd, GitCommit (commitMessage env),
                                        GitPush claudeBranch]))))
             else (\<lparr>shouldDeleteBranch = True, branchLink = []\<rparr>, [GitStatus]))"

text \<open>The \<open>try\<close> that compares the two heads; \<open>Promise.all\<close> sends both requests.\<close>

definition compareHeads ::
  "process_env \<Rightarrow> branch_world \<Rightarrow> string \<Rightarrow> string \<Rightarrow> string \<Rightarrow> string \<Rightarrow> bool
   \<Rightarrow> branch_result \<times> branch_event list" where
  "compareHeads env w owner repo claudeBranch baseBranch useCommitSigning =
     (let linked = \<lparr>shouldDeleteBranch = False,
                     branchLink = viewBranchLink env owner repo claudeBranch\<rparr>;
          requests = [GetBranch baseBranch, GetBranch claudeBranch]
      in case repos_getBranch w 1 baseBranch of
           Inl e \<Rightarrow> (linked, requests)
         | Inr baseSHA \<Rightarrow>
             (case repos_getBranch w 2 claudeBranch of
                Inl e \<Rightarrow> (linked, requests)
              | Inr claudeSHA \<Rightarrow>
                  (let hasCommits = (baseSHA \<noteq> claudeSHA)
                   in if \<not> hasCommits then
                        (if \<not> useCommitSigning then
                           (let r = commitUncommitted env w owner repo claudeBranch
                            in (fst r, requests @ snd r))
                         else (\<lparr>shouldDeleteBranch = True, branchLink = []\<rparr>, requests))
                      else (linked, requests))))"

definition deleteBranch :: "process_env \<Rightarrow> string \<Rightarrow> branch_event list" where
  "deleteBranch env claudeBranch =
     (if isGiteaInstance env then [GiteaDeleteBranch claudeBranch]
      else [DeleteRef (''heads/'' @ claudeBranch)])"

definition checkAndCommitOrDeleteBranch ::
  "process_env \<Rightarrow> branch_world \<Rightarrow> string \<Rightarrow> string \<Rightarrow> string option \<Rightarrow> string \<Rightarrow> bool
   \<Rightarrow> branch_result \<times> branch_event list" where
  "checkAndCommitOrDeleteBranch env w owner repo claudeBranch baseBranch useCommitSigning =
     (case claudeBranch of
        None \<Rightarrow> (\<lparr>shouldDeleteBranch = False, branchLink = []\<rparr>, [])
      | Some branch \<Rightarrow>
          if branch = [] then (\<lparr>shouldDeleteBranch = False, branchLink = []\<rparr>, [])
          else
            (case repos_getBranch w 0 branch of
               Inl e \<Rightarrow> (\<lparr>shouldDeleteBranch = False, branchLink = []\<rparr>, [GetBranch branch])
             | Inr info \<Rightarrow>
                 (let r = compareHeads env w owner repo branch baseBranch useCommitSigning;
                      tr = GetBranch branch # snd r
                  in if shouldDeleteBranch (fst r) then (fst r, tr @ deleteBranch env branch)
                     else (fst r, tr))))"


section \<open>Notions used to state the properties\<close>

text \<open>An event concerns an original URL when it downloads for it or sets its map entry.\<close>

fun concerns :: "string \<Rightarrow> event \<Rightarrow> bool" where
  "concerns u (Download original signed) = (original = u)"
| "concerns u (MapSet original path) = (original = u)"
| "concerns u e = False"

text \<open>A trace is settled when, after the map entry of a URL has been set, no later event
  downloads for that URL or sets its entry again.\<close>

fun settled :: "event list \<Rightarrow> bool" where
  "settled [] = True"
| "settled (e # es) =
     ((case e of MapSet u p \<Rightarrow> \<not> list_ex (concerns u) es | _ \<Rightarrow> True) \<and> settled es)"

text \<open>The entries set during a run, in the order of the trace.\<close>

fun mapSets :: "event list \<Rightarrow> url_map" where
  "mapSets [] = []"
| "mapSets (MapSet u p # es) = (u, p) # mapSets es"
| "mapSets (e # es) = mapSets es"

text \<open>The signed URLs in the rendered HTML of a comment, as the platform answers the
  request for it; none when the request fails or the answer has no HTML.\<close>

definition renderedSignedUrls :: "world \<Rightarrow> CommentWithImages \<Rightarrow> string list" where
  "renderedSignedUrls w c =
     (case body_html w (htmlRequestOf c) of
        Inr (Some bodyHtml) \<Rightarrow> signedUrlsIn bodyHtml
      | _ \<Rightarrow> [])"

text \<open>The invariant of the download loops: the map holds exactly the entries set so far,
  its keys are distinct, and the trace is settled.\<close>

definition dl_inv :: "dl_state \<Rightarrow> bool" where
  "dl_inv st =
     (urlToPathMap st = mapSets (trace st) \<and> distinct (map fst (urlToPathMap st))
      \<and> settled (trace st))"


text \<open>The request for the entity itself fails.\<close>

definition primaryFails :: "world \<Rightarrow> string \<Rightarrow> bool \<Rightarrow> bool" where
  "primaryFails w prNumber isPR =
     (if isPR then isl (pulls_get w prNumber) else isl (issues_get w prNumber))"

definition primaryRequest :: "string \<Rightarrow> bool \<Rightarrow> rest_request" where
  "primaryRequest prNumber isPR = (if isPR then ReqPullsGet prNumber else ReqIssuesGet prNumber)"


section \<open>Concrete platforms and inputs\<close>

definition githubEnv :: process_env where
  "githubEnv = \<lparr>GITEA_API_URL = None, GITEA_SERVER_URL = None,
     GITHUB_SERVER_URL = Some ''https://github.com'', GITHUB_RUN_NUMBER = Some ''7''\<rparr>"

text \<open>A repository where every branch has the same head and the working tree is clean
  (\<open>git status --porcelain\<close> prints a line break only).\<close>

definition cleanTreeWorld :: branch_world where
  "cleanTreeWorld =
     \<lparr>repos_getBranch = (\<lambda>n b. Inr ''5f2c''),
      git_status_porcelain = Inr [CHR 0x0A],
      git_add_all = Inr (),
      git_commit = (\<lambda>m. Inr ()),
      git_push = (\<lambda>b. Inr ())\<rparr>"

text \<open>A platform that answers the first \<open>getBranch\<close> request and fails the later ones.\<close>

definition compareFailsWorld :: branch_world where
  "compareFailsWorld =
     \<lparr>repos_getBranch = (\<lambda>n b. if n = 0 then Inr ''5f2c'' else Inl (RequestError 502)),
      git_status_porcelain = Inr [],
      git_add_all = Inr (),
      git_commit = (\<lambda>m. Inr ()),
      git_push = (\<lambda>b. Inr ())\<rparr>"


text \<open>An \<open>img\<close> element whose source is a signed URL.\<close>

definition signedHtml :: "string \<Rightarrow> string" where
  "signedHtml name =
     ''<img src='' @ [CHR 0x22] @ signedUrlPrefix @ name @ ''?jwt=t'' @ [CHR 0x22] @ ''>''"

definition okResponse :: http_response where
  "okResponse = \<lparr>resp_ok = True, resp_status = 200, resp_bytes = [137, 80, 78, 71]\<rparr>"

definition demoPr :: pr_data where
  "demoPr = \<lparr>pr_title = ''Fix'', pr_body = Some ''text only'', pr_user_login = Some ''dev'',
     pr_base_ref = ''main'', pr_head_ref = ''claude/issue-7'', pr_head_sha = ''5f2c'',
     pr_created_at = ''2024-01-01T00:00:00Z'', pr_additions = Some 1, pr_deletions = None,
     pr_state = ''open''\<rparr>"

definition demoIssue :: issue_data where
  "demoIssue = \<lparr>issue_title = ''Bug'', issue_body = Some ''text only'',
     issue_user_login = Some ''dev'', issue_created_at = ''2024-01-01T00:00:00Z'',
     issue_state = ''open''\<rparr>"

text \<open>
  A platform where the entity requests succeed, the requests for the comments and for the
  changed files fail, the HTML of an issue comment holds two signed URLs, every image
  download succeeds, and the clock advances by a millisecond at every reading.
\<close>

definition demoWorld :: world where
  "demoWorld = \<lparr>
     pulls_get = (\<lambda>n. Inr demoPr),
     issues_get = (\<lambda>n. Inr demoIssue),
     issues_listComments = (\<lambda>n. Inl (RequestError 500)),
     pulls_listFiles = (\<lambda>n. Inl (RequestError 500)),
     users_getByUsername = (\<lambda>n. Inr None),
     body_html = (\<lambda>r. case r of
                         IssuesGetComment cid \<Rightarrow> Inr (Some (signedHtml cid @ signedHtml ''z''))
                       | _ \<Rightarrow> Inl (RequestError 404)),
     fetch = (\<lambda>u. Inr okResponse),
     fs_mkdir = (\<lambda>d. Inr ()),
     fs_writeFile = (\<lambda>p b. Inr ()),
     Date_now = (\<lambda>n. 1704067200000 + n),
     git_hash_object = (\<lambda>p. Inl (ShellError 128))\<rparr>"

text \<open>The same platform with a clock that shows the same millisecond at every reading.\<close>

definition sameClockWorld :: world where
  "sameClockWorld = demoWorld\<lparr>Date_now := (\<lambda>n. 1704067200000)\<rparr>"

text \<open>The same platform where the entity requests fail.\<close>

definition notFoundWorld :: world where
  "notFoundWorld = demoWorld\<lparr>pulls_get := (\<lambda>n. Inl (RequestError 404)),
     issues_get := (\<lambda>n. Inl (RequestError 404))\<rparr>"

definition imgA :: string where
  "imgA = ''https://github.com/user-attachments/assets/a.png''"

definition imgAq :: string where
  "imgAq = ''https://github.com/user-attachments/assets/a.png?v=2''"

definition imgB :: string where
  "imgB = ''https://github.com/user-attachments/assets/b''"



definition bodyA :: string where
  "bodyA = ''see ![x]('' @ imgA @ '')''"

definition bodyAq :: string where
  "bodyAq = ''see ![x]('' @ imgAq @ '')''"

definition bodyAB :: string where
  "bodyAB = ''![y]('' @ imgA @ '') and ![z]('' @ imgB @ '')''"


definition demoComments :: "CommentWithImages list" where
  "demoComments =
     [IssueComment ''1'' bodyA, IssueComment ''2'' ''no image here'', IssueComment ''3'' bodyAB]"

definition twoComments :: "CommentWithImages list" where
  "twoComments = [IssueComment ''1'' bodyA, IssueComment ''2'' bodyAq]"


text \<open>
  A platform where the request for the comments fails and everything else succeeds: the
  body of the pull request holds an image, two files are changed (one of them deleted),
  and \<open>git hash-object\<close> prints a hash and a line break.
\<close>

definition prWithImage :: pr_data where
  "prWithImage = demoPr\<lparr>pr_body := Some bodyA\<rparr>"

definition demoFiles :: "file_data list" where
  "demoFiles =
     [\<lparr>file_filename = ''src/a.ts'', file_additions = Some 3, file_deletions = None,
       file_status = Some ''modified''\<rparr>,
      \<lparr>file_filename = ''old.ts'', file_additions = None, file_deletions = Some 9,
       file_status = Some ''deleted''\<rparr>]"

definition commentsDownWorld :: world where
  "commentsDownWorld = demoWorld\<lparr>
     pulls_get := (\<lambda>n. Inr prWithImage),
     pulls_listFiles := (\<lambda>n. Inr demoFiles),
     body_html := (\<lambda>r. case r of PullsGet n \<Rightarrow> Inr (Some (signedHtml n))
                          | _ \<Rightarrow> Inl (RequestError 404)),
     git_hash_object := (\<lambda>p. Inr (''9a1b'' @ [CHR 0x0A]))\<rparr>"

text \<open>A platform where the request for the changed files fails and the request for the
  comments gives one comment with an image.\<close>

definition demoCommentData :: "comment_data list" where
  "demoCommentData =
     [\<lparr>comment_id = 41, comment_body = Some bodyA, comment_user_login = Some ''ann'',
       comment_created_at = ''2024-01-02T00:00:00Z''\<rparr>]"

definition filesDownWorld :: world where
  "filesDownWorld = demoWorld\<lparr>issues_listComments := (\<lambda>n. Inr demoCommentData)\<rparr>"

text \<open>The platform \<open>demoWorld\<close> (comments and files both fail) where, in addition, the
  download directory cannot be created.\<close>

definition mkdirFailsWorld :: world where
  "mkdirFailsWorld = demoWorld\<lparr>fs_mkdir := (\<lambda>d. Inl (SystemError ''EACCES''))\<rparr>"

text \<open>The map and the trace of the run on \<open>demoComments\<close>.\<close>

definition demoMap :: url_map where
  "demoMap =
     [(imgA, ''/tmp/github-images/image-1704067200000-0.png''),
      (imgB, ''/tmp/github-images/image-1704067200001-1.png'')]"

definition demoTrace :: "event list" where
  "demoTrace =
     [Mkdir ''/tmp/github-images'',
      HtmlCall (IssueComment ''1'' bodyA),
      DateNow,
      Download imgA (signedUrlPrefix @ ''1?jwt=t''),
      WriteFile ''/tmp/github-images/image-1704067200000-0.png'' [137, 80, 78, 71],
      MapSet imgA ''/tmp/github-images/image-1704067200000-0.png'',
      HtmlCall (IssueComment ''3'' bodyAB),
      DateNow,
      Download imgB (signedUrlPrefix @ ''z?jwt=t''),
      WriteFile ''/tmp/github-images/image-1704067200001-1.png'' [137, 80, 78, 71],
      MapSet imgB ''/tmp/github-images/image-1704067200001-1.png'']"


section \<open>Branch reconciliation: proofs\<close>

lemma viewBranchLink_nonempty: "viewBranchLink env owner repo claudeBranch \<noteq> []"
  by (simp add: viewBranchLink_def)

lemma commitUncommitted_cases:
  "fst (commitUncommitted env w owner repo b) = \<lparr>shouldDeleteBranch = True, branchLink = []\<rparr>
   \<or> fst (commitUncommitted env w owner repo b) =
       \<lparr>shouldDeleteBranch = False, branchLink = viewBranchLink env owner repo b\<rparr>"
  by (simp add: commitUncommitted_def Let_def split: sum.splits)

lemma compareHeads_cases:
  "fst (compareHeads env w owner repo b base signing) =
     \<lparr>shouldDeleteBranch = True, branchLink = []\<rparr>
   \<or> fst (compareHeads env w owner repo b base signing) =
       \<lparr>shouldDeleteBranch = False, branchLink = viewBranchLink env owner repo b\<rparr>"
  using commitUncommitted_cases [of env w owner repo b]
  by (auto simp: compareHeads_def Let_def split: sum.splits)

lemma checkAndCommitOrDeleteBranch_cases:
  "fst (checkAndCommitOrDeleteBranch env w owner repo cb base signing) =
     \<lparr>shouldDeleteBranch = True, branchLink = []\<rparr>
   \<or> fst (checkAndCommitOrDeleteBranch env w owner repo cb base signing) =
     \<lparr>shouldDeleteBranch = False, branchLink = []\<rparr>
   \<or> (\<exists>b. cb = Some b \<and> fst (checkAndCommitOrDeleteBranch env w owner repo cb base signing) =
       \<lparr>shouldDeleteBranch = False, branchLink = viewBranchLink env owner repo b\<rparr>)"
proof (cases cb)
  case None
  then show ?thesis by (simp add: checkAndCommitOrDeleteBranch_def)
next
  case (Some b)
  show ?thesis
    using compareHeads_cases [of env w owner repo b base signing]
    by (auto simp: Some checkAndCommitOrDeleteBranch_def Let_def split: sum.splits)
qed

text \<open>
  C1. When the working branch exists remotely (the first \<open>getBranch\<close> request succeeds),
  the base branch and the working branch have the same head SHA, commit signing is
  disabled and \<open>git status --porcelain\<close> prints nothing but white space,
  \<open>checkAndCommitOrDeleteBranch\<close> returns \<open>{shouldDeleteBranch: true, branchLink: ""}\<close>.
\<close>

theorem clean_tree_marks_branch_for_deletion:
  assumes "branch \<noteq> []"
    and "repos_getBranch w 0 branch = Inr info"
    and "repos_getBranch w 1 baseBranch = Inr sha"
    and "repos_getBranch w 2 branch = Inr sha"
    and "git_status_porcelain w = Inr out"
    and "trim out = []"
  shows "fst (checkAndCommitOrDeleteBranch env w owner repo (Some branch) baseBranch False)
         = \<lparr>shouldDeleteBranch = True, branchLink = []\<rparr>"
  using assms
  by (simp add: checkAndCommitOrDeleteBranch_def compareHeads_def commitUncommitted_def Let_def)

theorem clean_tree_marks_branch_for_deletion_witness:
  "fst (checkAndCommitOrDeleteBranch githubEnv cleanTreeWorld ''acme'' ''app''
          (Some ''claude/issue-7'') ''main'' False)
   = \<lparr>shouldDeleteBranch = True, branchLink = []\<rparr>"
proof -
  have t: "trim [CHR 0x0A] = []"
    by (simp add: trim_def isWhiteSpace_def)
  show ?thesis
    using clean_tree_marks_branch_for_deletion [of "''claude/issue-7''" cleanTreeWorld
        "''5f2c''" "''main''" "''5f2c''" "[CHR 0x0A]" githubEnv "''acme''" "''app''"] t
    by (simp add: cleanTreeWorld_def)
qed

text \<open>
  C2. When the working branch exists remotely and the comparison of the two heads throws
  (one of the two \<open>getBranch\<close> requests of \<open>Promise.all\<close> fails),
  \<open>checkAndCommitOrDeleteBranch\<close> returns \<open>shouldDeleteBranch: false\<close> with a non-empty
  \<open>branchLink\<close>, and the run makes the three \<open>getBranch\<close> requests and no request that
  deletes the branch.
\<close>

theorem compare_failure_keeps_and_links_branch:
  assumes "branch \<noteq> []"
    and "repos_getBranch w 0 branch = Inr info"
    and "isl (repos_getBranch w 1 baseBranch) \<or> isl (repos_getBranch w 2 branch)"
  shows "\<not> shouldDeleteBranch
             (fst (checkAndCommitOrDeleteBranch env w owner repo (Some branch) baseBranch signing))
     \<and> branchLink
         (fst (checkAndCommitOrDeleteBranch env w owner repo (Some branch) baseBranch signing))
       \<noteq> []
     \<and> snd (checkAndCommitOrDeleteBranch env w owner repo (Some branch) baseBranch signing)
       = [GetBranch branch, GetBranch baseBranch, GetBranch branch]"
  using assms
  by (auto simp: checkAndCommitOrDeleteBranch_def compareHeads_def Let_def
      viewBranchLink_nonempty isl_def split: sum.splits)

theorem compare_failure_keeps_and_links_branch_witness:
  "\<not> shouldDeleteBranch (fst (checkAndCommitOrDeleteBranch githubEnv compareFailsWorld
        ''acme'' ''app'' (Some ''claude/issue-7'') ''main'' True))
   \<and> branchLink (fst (checkAndCommitOrDeleteBranch githubEnv compareFailsWorld
        ''acme'' ''app'' (Some ''claude/issue-7'') ''main'' True)) \<noteq> []
   \<and> snd (checkAndCommitOrDeleteBranch githubEnv compareFailsWorld
        ''acme'' ''app'' (Some ''claude/issue-7'') ''main'' True)
      = [GetBranch ''claude/issue-7'', GetBranch ''main'', GetBranch ''claude/issue-7'']"
  using compare_failure_keeps_and_links_branch [of "''claude/issue-7''" compareFailsWorld
      "''5f2c''" "''main''" githubEnv "''acme''" "''app''" True]
  by (simp add: compareFailsWorld_def)

text \<open>
  C10. The result of \<open>checkAndCommitOrDeleteBranch\<close> never has both
  \<open>shouldDeleteBranch = true\<close> and a non-empty \<open>branchLink\<close>: a result that marks the
  branch for deletion has the empty link, and a result with a link does not mark the
  branch for deletion.
\<close>

theorem delete_and_link_exclude_each_other:
  "(shouldDeleteBranch (fst (checkAndCommitOrDeleteBranch env w owner repo cb base signing))
      \<longrightarrow> branchLink (fst (checkAndCommitOrDeleteBranch env w owner repo cb base signing)) = [])
   \<and> (branchLink (fst (checkAndCommitOrDeleteBranch env w owner repo cb base signing)) \<noteq> []
      \<longrightarrow> \<not> shouldDeleteBranch
            (fst (checkAndCommitOrDeleteBranch env w owner repo cb base signing)))"
  using checkAndCommitOrDeleteBranch_cases [of env w owner repo cb base signing]
  by auto

theorem delete_and_link_exclude_each_other_witness:
  "(shouldDeleteBranch (fst (checkAndCommitOrDeleteBranch githubEnv cleanTreeWorld
        ''acme'' ''app'' (Some ''claude/issue-7'') ''main'' False))
    \<and> branchLink (fst (checkAndCommitOrDeleteBranch githubEnv cleanTreeWorld
        ''acme'' ''app'' (Some ''claude/issue-7'') ''main'' False)) = [])
   \<and> (branchLink (fst (checkAndCommitOrDeleteBranch githubEnv compareFailsWorld
        ''acme'' ''app'' (Some ''claude/issue-7'') ''main'' False)) \<noteq> []
    \<and> \<not> shouldDeleteBranch (fst (checkAndCommitOrDeleteBranch githubEnv compareFailsWorld
        ''acme'' ''app'' (Some ''claude/issue-7'') ''main'' False)))"
proof -
  have d: "shouldDeleteBranch (fst (checkAndCommitOrDeleteBranch githubEnv cleanTreeWorld
        ''acme'' ''app'' (Some ''claude/issue-7'') ''main'' False))"
    by (simp add: checkAndCommitOrDeleteBranch_def compareHeads_def commitUncommitted_def
        Let_def cleanTreeWorld_def trim_def isWhiteSpace_def)
  have l: "branchLink (fst (checkAndCommitOrDeleteBranch githubEnv compareFailsWorld
        ''acme'' ''app'' (Some ''claude/issue-7'') ''main'' False)) \<noteq> []"
    by (simp add: checkAndCommitOrDeleteBranch_def compareHeads_def Let_def
        compareFailsWorld_def viewBranchLink_nonempty)
  show ?thesis
    using d l
      delete_and_link_exclude_each_other [of githubEnv cleanTreeWorld "''acme''" "''app''"
        "Some ''claude/issue-7''" "''main''" False]
      delete_and_link_exclude_each_other [of githubEnv compareFailsWorld "''acme''" "''app''"
        "Some ''claude/issue-7''" "''main''" False]
    by blast
qed


section \<open>Image downloader: proofs\<close>

subsection \<open>State and map\<close>

lemma trace_emit [simp]: "trace (emit e st) = trace st @ [e]"
  by (simp add: emit_def)

lemma urlToPathMap_emit [simp]: "urlToPathMap (emit e st) = urlToPathMap st"
  by (simp add: emit_def)

lemma clockReads_emit [simp]: "clockReads (emit e st) = clockReads st"
  by (simp add: emit_def)

lemma map_set_new: "\<not> map_has m k \<Longrightarrow> map_set m k v = m @ [(k, v)]"
  by (induction m) (auto simp: map_has_def)

lemma length_map_set: "length (map_set m k v) \<le> Suc (length m)"
  by (induction m) auto

subsection \<open>The matches are not empty\<close>

lemma matchImageAt_nonempty: "matchImageAt env s = Some (url, len) \<Longrightarrow> url \<noteq> []"
  by (auto simp: matchImageAt_def Let_def split: option.splits if_splits)

lemma scanImages_nonempty: "u \<in> set (scanImages env skip s) \<Longrightarrow> u \<noteq> []"
proof (induction s arbitrary: skip)
  case Nil
  then show ?case by simp
next
  case (Cons c cs)
  show ?case
  proof (cases "0 < skip")
    case True
    then show ?thesis using Cons.prems Cons.IH [of "skip - 1"] by simp
  next
    case False
    show ?thesis
    proof (cases "matchImageAt env (c # cs)")
      case None
      then show ?thesis using False Cons.prems Cons.IH [of 0] by simp
    next
      case (Some m)
      obtain url len where m: "m = (url, len)" by (cases m)
      show ?thesis
        using False Some m Cons.prems Cons.IH [of "len - 1"] matchImageAt_nonempty [of env "c # cs" url len]
        by auto
    qed
  qed
qed

lemma imageUrls_nonempty: "u \<in> set (imageUrls env body) \<Longrightarrow> u \<noteq> []"
  unfolding imageUrls_def by (rule scanImages_nonempty)

lemma matchSignedAt_nonempty: "matchSignedAt s = Some url \<Longrightarrow> url \<noteq> []"
  by (auto simp: matchSignedAt_def Let_def signedUrlPrefix_def split: option.splits if_splits)

lemma scanSigned_nonempty: "u \<in> set (scanSigned skip s) \<Longrightarrow> u \<noteq> []"
proof (induction s arbitrary: skip)
  case Nil
  then show ?case by simp
next
  case (Cons c cs)
  show ?case
  proof (cases "0 < skip")
    case True
    then show ?thesis using Cons.prems Cons.IH [of "skip - 1"] by simp
  next
    case False
    show ?thesis
    proof (cases "matchSignedAt (c # cs)")
      case None
      then show ?thesis using False Cons.prems Cons.IH [of 0] by simp
    next
      case (Some url)
      then show ?thesis
        using False Cons.prems Cons.IH [of "length url - 1"] matchSignedAt_nonempty [of "c # cs" url]
        by auto
    qed
  qed
qed

lemma signedUrlsIn_nonempty: "u \<in> set (signedUrlsIn html) \<Longrightarrow> u \<noteq> []"
  unfolding signedUrlsIn_def by (rule scanSigned_nonempty)

subsection \<open>The invariant of the loops\<close>

lemma mapSets_append [simp]: "mapSets (xs @ ys) = mapSets xs @ mapSets ys"
  by (induction xs rule: mapSets.induct) auto

lemma settled_append:
  "settled (tr @ es) =
     (settled tr \<and> settled es
      \<and> (\<forall>u \<in> fst ` set (mapSets tr). \<forall>e \<in> set es. \<not> concerns u e))"
proof (induction tr)
  case Nil
  show ?case by simp
next
  case (Cons a tr)
  show ?case
  proof (cases a)
    case (MapSet u p)
    then show ?thesis using Cons by (auto simp: list_ex_iff)
  qed (use Cons in auto)
qed

lemma tryDownload_inv:
  assumes "dl_inv st" "\<not> map_has (urlToPathMap st) originalUrl"
  shows "dl_inv (tryDownload w signedUrl originalUrl localPath st)"
  using assms
  by (auto simp: dl_inv_def tryDownload_def Let_def settled_append map_set_new map_has_def
      split: sum.splits)

lemma emit_DateNow_inv:
  "dl_inv st \<Longrightarrow> dl_inv (emit DateNow (st\<lparr>clockReads := n\<rparr>))"
  by (auto simp: dl_inv_def settled_append emit_def)

lemma downloadLoop_inv:
  "dl_inv st \<Longrightarrow> dl_inv (snd (downloadLoop w i pairs st))"
proof (induction pairs arbitrary: i st)
  case Nil
  then show ?case by simp
next
  case (Cons p pairs)
  obtain signedUrl originalUrl where p: "p = (signedUrl, originalUrl)" by (cases p)
  show ?case
    using Cons.prems
    by (auto simp: p Let_def split: sum.splits
        intro!: Cons.IH tryDownload_inv emit_DateNow_inv)
qed

lemma processComment_inv: "dl_inv st \<Longrightarrow> dl_inv (processComment w cu st)"
proof -
  assume a: "dl_inv st"
  have e: "dl_inv (emit (HtmlCall (fst cu)) st)"
    using a by (auto simp: dl_inv_def settled_append)
  show ?thesis
    using e by (auto simp: processComment_def Let_def split: sum.splits option.splits
        intro: downloadLoop_inv)
qed

lemma processComments_inv: "dl_inv st \<Longrightarrow> dl_inv (processComments w cus st)"
  by (induction cus arbitrary: st) (auto intro: processComment_inv)

subsection \<open>The size of the map\<close>

lemma length_tryDownload:
  "length (urlToPathMap (tryDownload w s u p st)) \<le> Suc (length (urlToPathMap st))"
  by (auto simp: tryDownload_def Let_def length_map_set split: sum.splits)

lemma length_downloadLoop:
  "length (urlToPathMap (snd (downloadLoop w i pairs st)))
     \<le> length (urlToPathMap st) + length pairs"
proof (induction pairs arbitrary: i st)
  case Nil
  show ?case by simp
next
  case (Cons p pairs)
  obtain s u where p: "p = (s, u)" by (cases p)
  show ?case
  proof (cases "s = [] \<or> u = [] \<or> map_has (urlToPathMap st) u")
    case True
    then show ?thesis
      using Cons.IH [of "Suc i" st] by (auto simp: p)
  next
    case False
    show ?thesis
    proof (cases "getImageExtension u")
      case (Inl e)
      then show ?thesis using False by (simp add: p)
    next
      case (Inr ext)
      let ?st1 = "emit DateNow (st\<lparr>clockReads := Suc (clockReads st)\<rparr>)"
      let ?path = "pathJoin downloadsDir (imageFilename (Date_now w (clockReads st)) i ext)"
      have "length (urlToPathMap (snd (downloadLoop w (Suc i) pairs (tryDownload w s u ?path ?st1))))
              \<le> length (urlToPathMap (tryDownload w s u ?path ?st1)) + length pairs"
        by (rule Cons.IH)
      also have "\<dots> \<le> Suc (length (urlToPathMap ?st1)) + length pairs"
        using length_tryDownload [of w s u ?path ?st1] by simp
      finally show ?thesis
        using False Inr by (simp add: p Let_def)
    qed
  qed
qed

lemma getBodyHtml_Some:
  "getBodyHtml w c = Inr (Some h) \<Longrightarrow> body_html w (htmlRequestOf c) = Inr (Some h)"
  by (cases c) (auto split: sum.splits)

lemma length_processComment:
  "length (urlToPathMap (processComment w cu st))
     \<le> length (urlToPathMap st)
        + min (length (snd cu)) (length (renderedSignedUrls w (fst cu)))"
proof (cases "getBodyHtml w (fst cu)")
  case (Inl e)
  then show ?thesis by (simp add: processComment_def Let_def)
next
  case (Inr v)
  show ?thesis
  proof (cases v)
    case None
    then show ?thesis using Inr by (simp add: processComment_def Let_def)
  next
    case (Some h)
    have r: "renderedSignedUrls w (fst cu) = signedUrlsIn h"
      using getBodyHtml_Some [of w "fst cu" h] Inr Some by (simp add: renderedSignedUrls_def)
    show ?thesis
      using length_downloadLoop [of w 0 "zip (signedUrlsIn h) (snd cu)"
          "emit (HtmlCall (fst cu)) st"]
      by (simp add: processComment_def Let_def Inr Some r min.commute)
  qed
qed

lemma length_processComments:
  "length (urlToPathMap (processComments w cus st))
     \<le> length (urlToPathMap st)
        + (\<Sum>cu\<leftarrow>cus. min (length (snd cu)) (length (renderedSignedUrls w (fst cu))))"
proof (induction cus arbitrary: st)
  case Nil
  show ?case by simp
next
  case (Cons cu cus)
  show ?case
    using Cons.IH [of "processComment w cu st"] length_processComment [of w cu st]
    by simp
qed

lemma sum_collectImages:
  "(\<Sum>cu\<leftarrow>collectImages env cs. min (length (snd cu)) (length (renderedSignedUrls w (fst cu))))
   = (\<Sum>c\<leftarrow>cs. min (length (imageUrls env (commentBody c))) (length (renderedSignedUrls w c)))"
  by (induction cs) (auto simp: Let_def)

subsection \<open>The requests for rendered HTML\<close>

lemma HtmlCall_tryDownload:
  "HtmlCall c \<in> set (trace (tryDownload w s u p st)) \<longleftrightarrow> HtmlCall c \<in> set (trace st)"
  by (auto simp: tryDownload_def Let_def split: sum.splits)

lemma HtmlCall_downloadLoop:
  "HtmlCall c \<in> set (trace (snd (downloadLoop w i pairs st))) \<longleftrightarrow> HtmlCall c \<in> set (trace st)"
proof (induction pairs arbitrary: i st)
  case Nil
  show ?case by simp
next
  case (Cons p pairs)
  obtain s u where p: "p = (s, u)" by (cases p)
  show ?case
    by (auto simp: p Let_def Cons.IH HtmlCall_tryDownload split: sum.splits)
qed

lemma HtmlCall_processComment:
  "HtmlCall c \<in> set (trace (processComment w cu st))
     \<longleftrightarrow> HtmlCall c \<in> set (trace st) \<or> c = fst cu"
  by (auto simp: processComment_def Let_def HtmlCall_downloadLoop split: sum.splits option.splits)

lemma HtmlCall_processComments:
  "HtmlCall c \<in> set (trace (processComments w cus st))
     \<longleftrightarrow> HtmlCall c \<in> set (trace st) \<or> c \<in> fst ` set cus"
  by (induction cus arbitrary: st) (auto simp: HtmlCall_processComment)

lemma collectImages_set:
  "fst ` set (collectImages env cs) = {c \<in> set cs. imageUrls env (commentBody c) \<noteq> []}"
  by (induction cs) (auto simp: Let_def)

subsection \<open>The extension\<close>





subsection \<open>The file name\<close>

lemma showNat_small: "n < 10 \<Longrightarrow> showNat n = [digitChar n]"
  by (simp add: showNat.simps)

lemma showNat_big: "10 \<le> n \<Longrightarrow> showNat n = showNat (n div 10) @ [digitChar (n mod 10)]"
  by (subst showNat.simps) simp

lemma digit_cases: "d < 10 \<Longrightarrow> d \<in> {0, 1, 2, 3, 4, 5, 6, 7, 8, 9::nat}"
  by auto

lemma digitChar_inj: "a < 10 \<Longrightarrow> b < 10 \<Longrightarrow> digitChar a = digitChar b \<Longrightarrow> a = b"
  using digit_cases [of a] digit_cases [of b]
  by (auto simp: digitChar_def)

lemma digitChar_not_dash: "d < 10 \<Longrightarrow> digitChar d \<noteq> CHR ''-''"
  using digit_cases [of d] by (auto simp: digitChar_def)

lemma showNat_nonempty: "showNat n \<noteq> []"
  by (subst showNat.simps) simp

lemma showNat_no_dash: "CHR ''-'' \<notin> set (showNat n)"
proof (induction n rule: showNat.induct)
  case (1 n)
  show ?case
  proof (cases "n < 10")
    case True
    then show ?thesis using digitChar_not_dash [of n] by (simp add: showNat_small)
  next
    case False
    then show ?thesis
      using 1 digitChar_not_dash [of "n mod 10"] by (simp add: showNat_big)
  qed
qed

lemma showNat_inj: "showNat n = showNat m \<Longrightarrow> n = m"
proof (induction n arbitrary: m rule: showNat.induct)
  case (1 n)
  show ?case
  proof (cases "n < 10")
    case n: True
    show ?thesis
    proof (cases "m < 10")
      case True
      then show ?thesis using n 1(2) digitChar_inj by (simp add: showNat_small)
    next
      case False
      then show ?thesis
        using n 1(2) showNat_nonempty [of "m div 10"] by (simp add: showNat_small showNat_big)
    qed
  next
    case n: False
    show ?thesis
    proof (cases "m < 10")
      case True
      then show ?thesis
        using n 1(2) showNat_nonempty [of "n div 10"] by (simp add: showNat_small showNat_big)
    next
      case False
      have e: "showNat (n div 10) = showNat (m div 10)"
        "digitChar (n mod 10) = digitChar (m mod 10)"
        using n False 1(2) by (simp_all add: showNat_big)
      have "n div 10 = m div 10" using 1(1) [OF n e(1)] .
      moreover have "n mod 10 = m mod 10" using digitChar_inj [OF _ _ e(2)] by simp
      ultimately show ?thesis by (metis div_mult_mod_eq)
    qed
  qed
qed

lemma dash_split:
  "a @ CHR ''-'' # x = b @ CHR ''-'' # y \<Longrightarrow> CHR ''-'' \<notin> set a \<Longrightarrow> CHR ''-'' \<notin> set b
     \<Longrightarrow> a = b \<and> x = y"
proof (induction a arbitrary: b)
  case Nil
  then show ?case by (cases b) auto
next
  case (Cons c a)
  then show ?case by (cases b) auto
qed

lemma imageFilename_eq_iff:
  "imageFilename t i e = imageFilename t' i e' \<longleftrightarrow> t = t' \<and> e = e'"
proof
  assume "imageFilename t i e = imageFilename t' i e'"
  then have "showNat t @ CHR ''-'' # (showNat i @ e) = showNat t' @ CHR ''-'' # (showNat i @ e')"
    by (simp add: imageFilename_def)
  then have "showNat t = showNat t' \<and> showNat i @ e = showNat i @ e'"
    using showNat_no_dash by (intro dash_split) auto
  then show "t = t' \<and> e = e'" using showNat_inj by auto
qed auto

lemma pathJoin_eq_iff: "pathJoin d f = pathJoin d f' \<longleftrightarrow> f = f'"
  by (simp add: pathJoin_def)

subsection \<open>Evaluation on the concrete inputs\<close>

lemmas image_eval =
  imageUrls_def matchImageAt_def attachmentPrefix_def getServerUrl_def SERVER_URL_def
  orElse_def isGiteaInstance_def truthy_def githubEnv_def

lemmas signed_eval =
  signedUrlsIn_def matchSignedAt_def signedUrlPrefix_def jwtInside_def signedHtml_def

lemmas extension_eval =
  getImageExtension_def matchExtension_def toLowerCase_def toLowerChar_def asciiLetters_def
  imageExtensions_def

lemma imageUrls_bodyA: "imageUrls githubEnv bodyA = [imgA]"
  by (simp add: image_eval bodyA_def imgA_def)

lemma imageUrls_bodyAq: "imageUrls githubEnv bodyAq = [imgAq]"
  by (simp add: image_eval bodyAq_def imgAq_def)

lemma imageUrls_bodyAB: "imageUrls githubEnv bodyAB = [imgA, imgB]"
  by (simp add: image_eval bodyAB_def imgA_def imgB_def)


lemma imageUrls_plain: "imageUrls githubEnv ''no image here'' = []"
  by (simp add: image_eval)

lemma signedUrlsIn_demo1:
  "signedUrlsIn (signedHtml ''1'' @ signedHtml ''z'')
     = [signedUrlPrefix @ ''1?jwt=t'', signedUrlPrefix @ ''z?jwt=t'']"
  by (simp add: signed_eval)

lemma signedUrlsIn_demo2:
  "signedUrlsIn (signedHtml ''2'' @ signedHtml ''z'')
     = [signedUrlPrefix @ ''2?jwt=t'', signedUrlPrefix @ ''z?jwt=t'']"
  by (simp add: signed_eval)

lemma signedUrlsIn_demo3:
  "signedUrlsIn (signedHtml ''3'' @ signedHtml ''z'')
     = [signedUrlPrefix @ ''3?jwt=t'', signedUrlPrefix @ ''z?jwt=t'']"
  by (simp add: signed_eval)

lemma getImageExtension_imgA: "getImageExtension imgA = Inr ''.png''"
  by (simp add: extension_eval imgA_def)

lemma getImageExtension_imgAq: "getImageExtension imgAq = Inr ''.png''"
  by (simp add: extension_eval imgAq_def)

lemma getImageExtension_imgB: "getImageExtension imgB = Inr ''.png''"
  by (simp add: extension_eval imgB_def)






lemma images_distinct: "imgA \<noteq> imgB" "imgB \<noteq> imgA" "imgA \<noteq> imgAq" "imgA \<noteq> []" "imgB \<noteq> []"
  by (simp_all add: imgA_def imgB_def imgAq_def)

lemma signed_nonempty: "signedHtml a \<noteq> []" "signedUrlPrefix \<noteq> []"
  by (simp_all add: signedHtml_def signedUrlPrefix_def)

lemma showNat_demo:
  "showNat 1704067200000 = ''1704067200000''" "showNat 1704067200001 = ''1704067200001''"
  "showNat 0 = ''0''" "showNat (Suc 0) = ''1''"
  by (simp_all add: showNat_small showNat_big digitChar_def)

lemma collectImages_demo:
  "collectImages githubEnv demoComments
     = [(IssueComment ''1'' bodyA, [imgA]), (IssueComment ''3'' bodyAB, [imgA, imgB])]"
  by (simp add: demoComments_def imageUrls_bodyA imageUrls_bodyAB imageUrls_plain)

lemma downloadCommentImages_demo:
  "downloadCommentImages githubEnv demoWorld demoComments = (Inr demoMap, demoTrace)"
  by (simp add: downloadCommentImages_def collectImages_demo processComment_def
      signedUrlsIn_demo1 signedUrlsIn_demo3 getImageExtension_imgA getImageExtension_imgB
      showNat_demo images_distinct signed_nonempty tryDownload_def emit_def map_has_def
      imageFilename_def pathJoin_def downloadsDir_def demoWorld_def okResponse_def Let_def
      demoMap_def demoTrace_def)

subsection \<open>The claims about the image downloader\<close>

text \<open>
  C3. In a run of \<open>downloadCommentImages\<close> that returns, the keys of the returned map are
  distinct; the map holds exactly the entries that the run set, in the order it set them
  (no entry was overwritten); and once the entry of an original URL has been set, no later
  step of the run downloads for that URL or sets its entry again.
\<close>

theorem mapped_url_is_settled:
  assumes "downloadCommentImages env w cs = (Inr m, tr)"
  shows "distinct (map fst m) \<and> m = mapSets tr \<and> settled tr"
proof -
  let ?st0 = "\<lparr>urlToPathMap = [], clockReads = 0, trace = [Mkdir downloadsDir]\<rparr>"
  have "dl_inv ?st0" by (simp add: dl_inv_def)
  then have "dl_inv (processComments w (collectImages env cs) ?st0)"
    by (rule processComments_inv)
  then show ?thesis
    using assms
    by (auto simp: downloadCommentImages_def Let_def dl_inv_def split: sum.splits)
qed

theorem mapped_url_is_settled_witness:
  "downloadCommentImages githubEnv demoWorld demoComments = (Inr demoMap, demoTrace)
   \<and> distinct (map fst demoMap) \<and> demoMap = mapSets demoTrace \<and> settled demoTrace"
  using mapped_url_is_settled [OF downloadCommentImages_demo] downloadCommentImages_demo
  by simp

text \<open>
  C4. The number of entries of the map returned by \<open>downloadCommentImages\<close> is at most
  the sum, over the comments, of the minimum of the number of matches of the image pattern
  in the body of the comment and the number of signed URLs in its rendered HTML.
\<close>

theorem entries_bounded_by_pairs:
  assumes "downloadCommentImages env w cs = (Inr m, tr)"
  shows "length m
     \<le> (\<Sum>c\<leftarrow>cs. min (length (imageUrls env (commentBody c)))
                     (length (renderedSignedUrls w c)))"
proof -
  let ?st0 = "\<lparr>urlToPathMap = [], clockReads = 0, trace = [Mkdir downloadsDir]\<rparr>"
  have m: "m = urlToPathMap (processComments w (collectImages env cs) ?st0)"
    using assms by (auto simp: downloadCommentImages_def Let_def split: sum.splits)
  show ?thesis
    using length_processComments [of w "collectImages env cs" ?st0]
    by (simp add: m sum_collectImages)
qed

theorem entries_bounded_by_pairs_witness:
  "length demoMap = 2
   \<and> (\<Sum>c\<leftarrow>demoComments. min (length (imageUrls githubEnv (commentBody c)))
                            (length (renderedSignedUrls demoWorld c))) = 3
   \<and> length demoMap
       \<le> (\<Sum>c\<leftarrow>demoComments. min (length (imageUrls githubEnv (commentBody c)))
                                (length (renderedSignedUrls demoWorld c)))"
proof -
  have r: "renderedSignedUrls demoWorld (IssueComment cid b)
             = signedUrlsIn (signedHtml cid @ signedHtml ''z'')" for cid b
    by (simp add: renderedSignedUrls_def demoWorld_def)
  have s: "(\<Sum>c\<leftarrow>demoComments. min (length (imageUrls githubEnv (commentBody c)))
                            (length (renderedSignedUrls demoWorld c))) = 3"
    by (simp add: demoComments_def imageUrls_bodyA imageUrls_bodyAB imageUrls_plain r
        signedUrlsIn_demo1 signedUrlsIn_demo3)
  show ?thesis
    using entries_bounded_by_pairs [OF downloadCommentImages_demo] s
    by (simp add: demoMap_def)
qed

text \<open>
  C5. For a comment whose body has no match of the image pattern, a run of
  \<open>downloadCommentImages\<close> makes no request for the rendered HTML of that comment.
\<close>

theorem no_html_call_without_match:
  assumes "imageUrls env (commentBody c) = []"
  shows "HtmlCall c \<notin> set (snd (downloadCommentImages env w cs))"
  using assms
  by (auto simp: downloadCommentImages_def Let_def HtmlCall_processComments collectImages_set
      split: sum.splits)

theorem no_html_call_without_match_witness:
  "imageUrls githubEnv (commentBody (IssueComment ''2'' ''no image here'')) = []
   \<and> HtmlCall (IssueComment ''2'' ''no image here'')
       \<notin> set (snd (downloadCommentImages githubEnv demoWorld demoComments))
   \<and> HtmlCall (IssueComment ''1'' bodyA)
       \<in> set (snd (downloadCommentImages githubEnv demoWorld demoComments))"
  using no_html_call_without_match [of githubEnv "IssueComment ''2'' ''no image here''"
      demoWorld demoComments]
  by (simp add: imageUrls_plain downloadCommentImages_demo demoTrace_def)




text \<open>
  C9. The claim asks for two distinct local paths when two comments hold one image each.
  The file name is made of the clock reading, the index and the extension, and the index
  starts at 0 again for every comment; with a clock that shows the same millisecond at
  both readings, the run below gives the two different original URLs the same local path,
  and the second \<open>WriteFile\<close> of its trace overwrites the file of the first.
\<close>

theorem same_clock_same_path:
  "imgA \<noteq> imgAq
   \<and> downloadCommentImages githubEnv sameClockWorld twoComments
     = (Inr [(imgA, ''/tmp/github-images/image-1704067200000-0.png''),
             (imgAq, ''/tmp/github-images/image-1704067200000-0.png'')],
        [Mkdir ''/tmp/github-images'',
         HtmlCall (IssueComment ''1'' bodyA),
         DateNow,
         Download imgA (signedUrlPrefix @ ''1?jwt=t''),
         WriteFile ''/tmp/github-images/image-1704067200000-0.png'' [137, 80, 78, 71],
         MapSet imgA ''/tmp/github-images/image-1704067200000-0.png'',
         HtmlCall (IssueComment ''2'' bodyAq),
         DateNow,
         Download imgAq (signedUrlPrefix @ ''2?jwt=t''),
         WriteFile ''/tmp/github-images/image-1704067200000-0.png'' [137, 80, 78, 71],
         MapSet imgAq ''/tmp/github-images/image-1704067200000-0.png''])"
proof -
  have n: "imgAq \<noteq> []" "imgAq \<noteq> imgA"
    by (simp_all add: imgA_def imgAq_def)
  have c: "collectImages githubEnv twoComments
             = [(IssueComment ''1'' bodyA, [imgA]), (IssueComment ''2'' bodyAq, [imgAq])]"
    by (simp add: twoComments_def imageUrls_bodyA imageUrls_bodyAq)
  show ?thesis
    by (simp add: downloadCommentImages_def c processComment_def
        signedUrlsIn_demo1 signedUrlsIn_demo2 getImageExtension_imgA getImageExtension_imgAq
        showNat_demo images_distinct n signed_nonempty tryDownload_def emit_def map_has_def
        imageFilename_def pathJoin_def downloadsDir_def sameClockWorld_def demoWorld_def
        okResponse_def Let_def)
qed


section \<open>Context fetcher: proofs\<close>

lemma fetchEntity_fails:
  "primaryFails w prNumber isPR \<Longrightarrow>
     \<exists>e. fetchEntity w prNumber isPR = (Inl e, [RestCall (primaryRequest prNumber isPR)])"
  by (auto simp: primaryFails_def primaryRequest_def fetchEntity_def isl_def)

text \<open>
  C6. When the request for the entity (the pull request when \<open>isPR\<close>, the issue
  otherwise) fails, \<open>fetchGitHubData\<close> throws \<open>Failed to fetch PR data\<close> (or
  \<open>issue data\<close>) and returns no result; the request for the entity is the only thing the
  call has done: no request for comments or files, no \<open>git hash-object\<close>, nothing of the
  image downloader.
\<close>

theorem entity_failure_aborts_fetch:
  assumes "validRepository repository"
    and "primaryFails w prNumber isPR"
  shows "fetchGitHubData env w repository prNumber isPR triggerUsername
         = (Inl (fetchFailed isPR), [RestCall (primaryRequest prNumber isPR)])"
  using assms fetchEntity_fails [of w prNumber isPR]
  by (auto simp: fetchGitHubData_def)

theorem entity_failure_aborts_fetch_witness:
  "fetchGitHubData githubEnv notFoundWorld ''acme/app'' ''12'' True (Some ''dev'')
     = (Inl (Error ''Failed to fetch PR data''), [RestCall (ReqPullsGet ''12'')])
   \<and> fetchGitHubData githubEnv notFoundWorld ''acme/app'' ''12'' False (Some ''dev'')
     = (Inl (Error ''Failed to fetch issue data''), [RestCall (ReqIssuesGet ''12'')])"
proof -
  have v: "validRepository ''acme/app''"
    by (simp add: validRepository_def)
  have f: "primaryFails notFoundWorld ''12'' True" "primaryFails notFoundWorld ''12'' False"
    by (simp_all add: primaryFails_def notFoundWorld_def)
  show ?thesis
    using entity_failure_aborts_fetch [OF v f(1), of githubEnv "Some ''dev''"]
      entity_failure_aborts_fetch [OF v f(2), of githubEnv "Some ''dev''"]
    by (simp add: fetchFailed_def primaryRequest_def)
qed

text \<open>
  C7, as the code has it. The request for the entity succeeds and the download directory
  of the image downloader is created. Then \<open>fetchGitHubData\<close> returns a result, whatever
  the requests for the comments and for the changed files do: the entity of the result is
  the one fetched; a failed request for the comments gives the empty list of comments and
  a successful one the comments it answered, and likewise for the changed files of a pull
  request; every changed file carries its hash; the image map is that of the image
  downloader run on the body of the entity and the comments of the result; and the trace
  holds the three requests (two for an issue), then \<open>git hash-object\<close> for every changed
  file not deleted, then the run of the image downloader, then the request for the
  display name.
\<close>

theorem subfetch_failure_gives_empty_list:
  assumes "validRepository repository"
    and "\<not> primaryFails w prNumber isPR"
    and "fs_mkdir w downloadsDir = Inr ()"
  shows "\<exists>res.
      fetchGitHubData env w repository prNumber isPR triggerUsername
        = (Inr res,
           RestCall (primaryRequest prNumber isPR) # RestCall (ReqIssuesListComments prNumber)
             # (if isPR then [RestCall (ReqPullsListFiles prNumber)] else [])
             @ hashEvents (changedFiles res)
             @ snd (downloadCommentImages env w
                      (allCommentsOf isPR prNumber (contextData res) (comments res)
                         (reviewData res)))
             @ snd (triggerName w triggerUsername))
      \<and> (\<forall>pr. isPR \<and> pulls_get w prNumber = Inr pr
                \<longrightarrow> contextData res = PullRequest (toPullRequest pr))
      \<and> (\<forall>iss. \<not> isPR \<and> issues_get w prNumber = Inr iss
                \<longrightarrow> contextData res = Issue (toIssue iss))
      \<and> (isl (issues_listComments w prNumber) \<longrightarrow> comments res = [])
      \<and> (\<forall>answer. issues_listComments w prNumber = Inr answer
                \<longrightarrow> comments res = map toComment answer)
      \<and> (isPR \<and> isl (pulls_listFiles w prNumber) \<longrightarrow> changedFiles res = [])
      \<and> (\<forall>answer. isPR \<and> pulls_listFiles w prNumber = Inr answer
                \<longrightarrow> changedFiles res = map toFile answer)
      \<and> (\<not> isPR \<longrightarrow> changedFiles res = [])
      \<and> changedFilesWithSHA res = map (fileWithSHA w) (changedFiles res)
      \<and> reviewData res = (if isPR then Some [] else None)
      \<and> fst (downloadCommentImages env w
                (allCommentsOf isPR prNumber (contextData res) (comments res) (reviewData res)))
          = Inr (imageUrlMap res)
      \<and> triggerDisplayName res = fst (triggerName w triggerUsername)"
proof -
  have dl: "\<exists>m tr. downloadCommentImages env w cs = (Inr m, tr)" for cs
    using assms(3) by (simp add: downloadCommentImages_def Let_def)
  show ?thesis
  proof (cases isPR)
    case True
    obtain pr where pr: "pulls_get w prNumber = Inr pr"
      using assms(2) True by (cases "pulls_get w prNumber") (auto simp: primaryFails_def)
    let ?cs = "allCommentsOf True prNumber (PullRequest (toPullRequest pr))
                 (fetchComments w prNumber) (Some [])"
    obtain m tr where d: "downloadCommentImages env w ?cs = (Inr m, tr)"
      using dl by blast
    show ?thesis
      using assms(1) True pr d
      by (auto simp: fetchGitHubData_def fetchEntity_def Let_def primaryRequest_def
          fetchComments_def fetchFiles_def hashEvents_def isl_def)
  next
    case False
    obtain iss where iss: "issues_get w prNumber = Inr iss"
      using assms(2) False by (cases "issues_get w prNumber") (auto simp: primaryFails_def)
    let ?cs = "allCommentsOf False prNumber (Issue (toIssue iss))
                 (fetchComments w prNumber) None"
    obtain m tr where d: "downloadCommentImages env w ?cs = (Inr m, tr)"
      using dl by blast
    show ?thesis
      using assms(1) False iss d
      by (auto simp: fetchGitHubData_def fetchEntity_def Let_def primaryRequest_def
          fetchComments_def hashEvents_def isl_def)
  qed
qed

lemma valid_acme: "validRepository ''acme/app''"
  by (simp add: validRepository_def)

lemma upper_demo:
  "toUpperCase ''open'' = ''OPEN''" "toUpperCase ''modified'' = ''MODIFIED''"
  "toUpperCase ''deleted'' = ''DELETED''"
  by (simp_all add: toUpperCase_def toUpperChar_def asciiLetters_def)

lemma signedUrlsIn_pr: "signedUrlsIn (signedHtml ''12'') = [signedUrlPrefix @ ''12?jwt=t'']"
  by (simp add: signed_eval)

lemma signedUrlsIn_demo41:
  "signedUrlsIn (signedHtml ''41'' @ signedHtml ''z'')
     = [signedUrlPrefix @ ''41?jwt=t'', signedUrlPrefix @ ''z?jwt=t'']"
  by (simp add: signed_eval)

lemma showNat_41: "showNat 41 = ''41''"
  by (simp add: showNat_small showNat_big digitChar_def)

lemma download_prBody:
  "downloadCommentImages githubEnv commentsDownWorld [PullRequestBody ''12'' bodyA]
     = (Inr [(imgA, ''/tmp/github-images/image-1704067200000-0.png'')],
        [Mkdir ''/tmp/github-images'',
         HtmlCall (PullRequestBody ''12'' bodyA),
         DateNow,
         Download imgA (signedUrlPrefix @ ''12?jwt=t''),
         WriteFile ''/tmp/github-images/image-1704067200000-0.png'' [137, 80, 78, 71],
         MapSet imgA ''/tmp/github-images/image-1704067200000-0.png''])"
  by (simp add: downloadCommentImages_def imageUrls_bodyA processComment_def
      signedUrlsIn_pr getImageExtension_imgA showNat_demo images_distinct signed_nonempty
      tryDownload_def emit_def map_has_def imageFilename_def pathJoin_def downloadsDir_def
      commentsDownWorld_def demoWorld_def okResponse_def Let_def)

lemma download_comment41:
  "downloadCommentImages githubEnv filesDownWorld
       [PullRequestBody ''12'' ''text only'', IssueComment ''41'' bodyA]
     = (Inr [(imgA, ''/tmp/github-images/image-1704067200000-0.png'')],
        [Mkdir ''/tmp/github-images'',
         HtmlCall (IssueComment ''41'' bodyA),
         DateNow,
         Download imgA (signedUrlPrefix @ ''41?jwt=t''),
         WriteFile ''/tmp/github-images/image-1704067200000-0.png'' [137, 80, 78, 71],
         MapSet imgA ''/tmp/github-images/image-1704067200000-0.png''])"
proof -
  have t: "imageUrls githubEnv ''text only'' = []"
    by (simp add: image_eval)
  show ?thesis
    by (simp add: downloadCommentImages_def imageUrls_bodyA t processComment_def
        signedUrlsIn_demo41 getImageExtension_imgA showNat_demo images_distinct
        signed_nonempty tryDownload_def emit_def map_has_def imageFilename_def pathJoin_def
        downloadsDir_def filesDownWorld_def demoWorld_def okResponse_def Let_def)
qed

theorem subfetch_failure_gives_empty_list_witness:
  "(\<exists>res.
      fetchGitHubData githubEnv commentsDownWorld ''acme/app'' ''12'' True (Some ''dev'')
        = (Inr res,
           [RestCall (ReqPullsGet ''12''), RestCall (ReqIssuesListComments ''12''),
            RestCall (ReqPullsListFiles ''12''),
            HashObject ''src/a.ts'',
            Mkdir ''/tmp/github-images'',
            HtmlCall (PullRequestBody ''12'' bodyA),
            DateNow,
            Download imgA (signedUrlPrefix @ ''12?jwt=t''),
            WriteFile ''/tmp/github-images/image-1704067200000-0.png'' [137, 80, 78, 71],
            MapSet imgA ''/tmp/github-images/image-1704067200000-0.png'',
            RestCall (ReqUsersGetByUsername ''dev'')])
      \<and> contextData res
          = PullRequest \<lparr>prq_title = ''Fix'', prq_body = bodyA, prq_author = ''dev'',
              prq_baseRefName = ''main'', prq_headRefName = ''claude/issue-7'',
              prq_headRefOid = ''5f2c'', prq_createdAt = ''2024-01-01T00:00:00Z'',
              prq_additions = 1, prq_deletions = 0, prq_state = ''OPEN''\<rparr>
      \<and> comments res = []
      \<and> changedFiles res
          = [\<lparr>gf_path = ''src/a.ts'', gf_additions = 3, gf_deletions = 0,
               gf_changeType = ''MODIFIED''\<rparr>,
             \<lparr>gf_path = ''old.ts'', gf_additions = 0, gf_deletions = 9,
               gf_changeType = ''DELETED''\<rparr>]
      \<and> changedFilesWithSHA res
          = [\<lparr>gf_path = ''src/a.ts'', gf_additions = 3, gf_deletions = 0,
               gf_changeType = ''MODIFIED'', gf_sha = ''9a1b''\<rparr>,
             \<lparr>gf_path = ''old.ts'', gf_additions = 0, gf_deletions = 9,
               gf_changeType = ''DELETED'', gf_sha = ''deleted''\<rparr>]
      \<and> imageUrlMap res = [(imgA, ''/tmp/github-images/image-1704067200000-0.png'')])
   \<and> (\<exists>res.
      fetchGitHubData githubEnv filesDownWorld ''acme/app'' ''12'' True None
        = (Inr res,
           [RestCall (ReqPullsGet ''12''), RestCall (ReqIssuesListComments ''12''),
            RestCall (ReqPullsListFiles ''12''),
            Mkdir ''/tmp/github-images'',
            HtmlCall (IssueComment ''41'' bodyA),
            DateNow,
            Download imgA (signedUrlPrefix @ ''41?jwt=t''),
            WriteFile ''/tmp/github-images/image-1704067200000-0.png'' [137, 80, 78, 71],
            MapSet imgA ''/tmp/github-images/image-1704067200000-0.png''])
      \<and> comments res
          = [\<lparr>cmt_id = ''41'', cmt_databaseId = ''41'', cmt_body = bodyA, cmt_author = ''ann'',
               cmt_createdAt = ''2024-01-02T00:00:00Z''\<rparr>]
      \<and> changedFiles res = [] \<and> changedFilesWithSHA res = []
      \<and> imageUrlMap res = [(imgA, ''/tmp/github-images/image-1704067200000-0.png'')])"
proof -
  have a: "\<not> primaryFails commentsDownWorld ''12'' True"
    "fs_mkdir commentsDownWorld downloadsDir = Inr ()"
    "pulls_get commentsDownWorld ''12'' = Inr prWithImage"
    "isl (issues_listComments commentsDownWorld ''12'')"
    "pulls_listFiles commentsDownWorld ''12'' = Inr demoFiles"
    by (simp_all add: primaryFails_def commentsDownWorld_def demoWorld_def)
  have pa: "toPullRequest prWithImage
      = \<lparr>prq_title = ''Fix'', prq_body = bodyA, prq_author = ''dev'',
          prq_baseRefName = ''main'', prq_headRefName = ''claude/issue-7'',
          prq_headRefOid = ''5f2c'', prq_createdAt = ''2024-01-01T00:00:00Z'',
          prq_additions = 1, prq_deletions = 0, prq_state = ''OPEN''\<rparr>"
    "bodyA \<noteq> []"
    by (simp_all add: toPullRequest_def prWithImage_def demoPr_def orElse_def orZero_def
        upper_demo bodyA_def)
  have fa: "map toFile demoFiles
      = [\<lparr>gf_path = ''src/a.ts'', gf_additions = 3, gf_deletions = 0,
           gf_changeType = ''MODIFIED''\<rparr>,
         \<lparr>gf_path = ''old.ts'', gf_additions = 0, gf_deletions = 9,
           gf_changeType = ''DELETED''\<rparr>]"
    by (simp add: demoFiles_def toFile_def orElse_def orZero_def upper_demo)
  have ha: "git_hash_object commentsDownWorld p = Inr (''9a1b'' @ [CHR 0x0A])" for p
    by (simp add: commentsDownWorld_def)
  have ta: "triggerName commentsDownWorld (Some ''dev'')
      = (None, [RestCall (ReqUsersGetByUsername ''dev'')])"
    by (simp add: triggerName_def fetchUserDisplayName_def commentsDownWorld_def demoWorld_def)
  have ca: "allCommentsOf True ''12'' (PullRequest (toPullRequest prWithImage)) [] (Some [])
      = [PullRequestBody ''12'' bodyA]"
    by (simp add: allCommentsOf_def mainBodyOf_def issueCommentsOf_def reviewBodiesOf_def
        reviewCommentsOf_def pa)
  have b: "\<not> primaryFails filesDownWorld ''12'' True"
    "fs_mkdir filesDownWorld downloadsDir = Inr ()"
    "pulls_get filesDownWorld ''12'' = Inr demoPr"
    "issues_listComments filesDownWorld ''12'' = Inr demoCommentData"
    "isl (pulls_listFiles filesDownWorld ''12'')"
    by (simp_all add: primaryFails_def filesDownWorld_def demoWorld_def)
  have cb: "map toComment demoCommentData
      = [\<lparr>cmt_id = ''41'', cmt_databaseId = ''41'', cmt_body = bodyA, cmt_author = ''ann'',
           cmt_createdAt = ''2024-01-02T00:00:00Z''\<rparr>]"
    by (simp add: demoCommentData_def toComment_def orElse_def showNat_41 pa(2))
  have ab: "allCommentsOf True ''12'' (PullRequest (toPullRequest demoPr))
        [\<lparr>cmt_id = ''41'', cmt_databaseId = ''41'', cmt_body = bodyA, cmt_author = ''ann'',
           cmt_createdAt = ''2024-01-02T00:00:00Z''\<rparr>] (Some [])
      = [PullRequestBody ''12'' ''text only'', IssueComment ''41'' bodyA]"
    by (simp add: allCommentsOf_def mainBodyOf_def issueCommentsOf_def reviewBodiesOf_def
        reviewCommentsOf_def toPullRequest_def demoPr_def orElse_def pa(2))
  have tb: "triggerName filesDownWorld None = (None, [])"
    by (simp add: triggerName_def)
  obtain ra where ra:
    "fetchGitHubData githubEnv commentsDownWorld ''acme/app'' ''12'' True (Some ''dev'')
       = (Inr ra,
          RestCall (primaryRequest ''12'' True) # RestCall (ReqIssuesListComments ''12'')
            # [RestCall (ReqPullsListFiles ''12'')]
            @ hashEvents (changedFiles ra)
            @ snd (downloadCommentImages githubEnv commentsDownWorld
                     (allCommentsOf True ''12'' (contextData ra) (comments ra) (reviewData ra)))
            @ snd (triggerName commentsDownWorld (Some ''dev'')))"
    "contextData ra = PullRequest (toPullRequest prWithImage)"
    "comments ra = []"
    "changedFiles ra = map toFile demoFiles"
    "changedFilesWithSHA ra = map (fileWithSHA commentsDownWorld) (changedFiles ra)"
    "reviewData ra = Some []"
    "fst (downloadCommentImages githubEnv commentsDownWorld
            (allCommentsOf True ''12'' (contextData ra) (comments ra) (reviewData ra)))
       = Inr (imageUrlMap ra)"
    using subfetch_failure_gives_empty_list [OF valid_acme a(1) a(2), of githubEnv "Some ''dev''"]
      a(3,4,5)
    by auto
  obtain rb where rb:
    "fetchGitHubData githubEnv filesDownWorld ''acme/app'' ''12'' True None
       = (Inr rb,
          RestCall (primaryRequest ''12'' True) # RestCall (ReqIssuesListComments ''12'')
            # [RestCall (ReqPullsListFiles ''12'')]
            @ hashEvents (changedFiles rb)
            @ snd (downloadCommentImages githubEnv filesDownWorld
                     (allCommentsOf True ''12'' (contextData rb) (comments rb) (reviewData rb)))
            @ snd (triggerName filesDownWorld None))"
    "contextData rb = PullRequest (toPullRequest demoPr)"
    "comments rb = map toComment demoCommentData"
    "changedFiles rb = []"
    "changedFilesWithSHA rb = map (fileWithSHA filesDownWorld) (changedFiles rb)"
    "reviewData rb = Some []"
    "fst (downloadCommentImages githubEnv filesDownWorld
            (allCommentsOf True ''12'' (contextData rb) (comments rb) (reviewData rb)))
       = Inr (imageUrlMap rb)"
    using subfetch_failure_gives_empty_list [OF valid_acme b(1) b(2), of githubEnv None]
      b(3,4,5)
    by auto
  have A: "fetchGitHubData githubEnv commentsDownWorld ''acme/app'' ''12'' True (Some ''dev'')
        = (Inr ra,
           [RestCall (ReqPullsGet ''12''), RestCall (ReqIssuesListComments ''12''),
            RestCall (ReqPullsListFiles ''12''),
            HashObject ''src/a.ts'',
            Mkdir ''/tmp/github-images'',
            HtmlCall (PullRequestBody ''12'' bodyA),
            DateNow,
            Download imgA (signedUrlPrefix @ ''12?jwt=t''),
            WriteFile ''/tmp/github-images/image-1704067200000-0.png'' [137, 80, 78, 71],
            MapSet imgA ''/tmp/github-images/image-1704067200000-0.png'',
            RestCall (ReqUsersGetByUsername ''dev'')])"
    "changedFilesWithSHA ra
          = [\<lparr>gf_path = ''src/a.ts'', gf_additions = 3, gf_deletions = 0,
               gf_changeType = ''MODIFIED'', gf_sha = ''9a1b''\<rparr>,
             \<lparr>gf_path = ''old.ts'', gf_additions = 0, gf_deletions = 9,
               gf_changeType = ''DELETED'', gf_sha = ''deleted''\<rparr>]"
    "imageUrlMap ra = [(imgA, ''/tmp/github-images/image-1704067200000-0.png'')]"
    using ra(1,5,7)
    by (simp_all add: ra(2,3,4,6) fa ca ta download_prBody primaryRequest_def hashEvents_def
        fileWithSHA_def withSHA_def ha trim_def isWhiteSpace_def)
  have B: "fetchGitHubData githubEnv filesDownWorld ''acme/app'' ''12'' True None
        = (Inr rb,
           [RestCall (ReqPullsGet ''12''), RestCall (ReqIssuesListComments ''12''),
            RestCall (ReqPullsListFiles ''12''),
            Mkdir ''/tmp/github-images'',
            HtmlCall (IssueComment ''41'' bodyA),
            DateNow,
            Download imgA (signedUrlPrefix @ ''41?jwt=t''),
            WriteFile ''/tmp/github-images/image-1704067200000-0.png'' [137, 80, 78, 71],
            MapSet imgA ''/tmp/github-images/image-1704067200000-0.png''])"
    "changedFilesWithSHA rb = []"
    "imageUrlMap rb = [(imgA, ''/tmp/github-images/image-1704067200000-0.png'')]"
    using rb(1,5,7)
    by (simp_all add: rb(2,3,4,6) cb ab tb download_comment41 primaryRequest_def hashEvents_def)
  show ?thesis
    using A B ra(2,3,4) rb(3,4) by (simp add: pa(1) fa cb)
qed

text \<open>
  C7, as the claim states it, fails: the request for the pull request succeeds and the
  requests for the comments and for the files fail, but the download directory cannot be
  created; the exception of \<open>fs.mkdir\<close> reaches the caller and there is no result.
\<close>

theorem mkdir_failure_reaches_caller:
  "pulls_get mkdirFailsWorld ''12'' = Inr demoPr
   \<and> issues_listComments mkdirFailsWorld ''12'' = Inl (RequestError 500)
   \<and> pulls_listFiles mkdirFailsWorld ''12'' = Inl (RequestError 500)
   \<and> fetchGitHubData githubEnv mkdirFailsWorld ''acme/app'' ''12'' True None
     = (Inl (SystemError ''EACCES''),
        [RestCall (ReqPullsGet ''12''), RestCall (ReqIssuesListComments ''12''),
         RestCall (ReqPullsListFiles ''12''), Mkdir ''/tmp/github-images''])"
  by (simp add: fetchGitHubData_def valid_acme fetchEntity_def fetchComments_def
      fetchFiles_def downloadCommentImages_def downloadsDir_def mkdirFailsWorld_def
      demoWorld_def Let_def)

end
